theory Spec2Isabelle
  imports Main
begin

text \<open>
  The identity, session, authorization and audit parts of the warehouse administration
  server: the storage operations the mutating routes use, the middleware
  \<^verbatim>\<open>isAuthenticated\<close> and \<^verbatim>\<open>requireRole\<close>, the audit wrapper, the ten routes that write to
  the store and to the audit log, and the callback of the login. Every operation is a
  function from the state of the server (and of the session) to the response and the new
  state; what comes from outside the server is an argument.
\<close>

section \<open>Shared schema (shared/schema.ts)\<close>

text \<open>
  The four roles of \<^verbatim>\<open>userRoles\<close>. The TypeScript type \<^verbatim>\<open>UserRole\<close> is the union of
  the four string literals; the routes compare roles by their names, so both the closed
  type and the names are kept.
\<close>

datatype user_role = Super_admin | Admin | Manager | Viewer

definition userRoles :: "string list" where
  "userRoles = [''super_admin'', ''admin'', ''manager'', ''viewer'']"

fun role_name :: "user_role \<Rightarrow> string" where
  "role_name Super_admin = ''super_admin''"
| "role_name Admin = ''admin''"
| "role_name Manager = ''manager''"
| "role_name Viewer = ''viewer''"

definition role_of_name :: "string \<Rightarrow> user_role option" where
  "role_of_name s =
     (if s = ''super_admin'' then Some Super_admin
      else if s = ''admin'' then Some Admin
      else if s = ''manager'' then Some Manager
      else if s = ''viewer'' then Some Viewer
      else None)"

text \<open>
  A \<^verbatim>\<open>Date\<close> is a point in time, here the number of milliseconds since the epoch.
  The clock and the identifiers the database generates (\<^verbatim>\<open>gen_random_uuid()\<close>) are
  inputs of every operation that reads them.
\<close>

type_synonym date = nat

text \<open>Row of table \<^verbatim>\<open>users\<close>; \<open>uid\<close> is the column \<^verbatim>\<open>id\<close>.\<close>

record user =
  uid :: string
  email :: "string option"
  firstName :: "string option"
  lastName :: "string option"
  profileImageUrl :: "string option"
  role :: user_role
  createdAt :: date
  updatedAt :: date

text \<open>\<^verbatim>\<open>UpsertUser = Pick<User, "id" | "email" | "firstName" | "lastName" | "profileImageUrl">\<close>\<close>

record upsert_user =
  up_id :: string
  up_email :: "string option"
  up_firstName :: "string option"
  up_lastName :: "string option"
  up_profileImageUrl :: "string option"

text \<open>Row of table \<^verbatim>\<open>audit_logs\<close>; the \<^verbatim>\<open>jsonb\<close> metadata is a list of key/value pairs.\<close>

type_synonym metadata = "(string \<times> string) list"

record audit_log =
  log_id :: string
  log_userId :: "string option"
  action :: string
  endpoint :: string
  http_method :: string
  metadata :: metadata
  ipAddress :: "string option"
  timestamp :: date

text \<open>The argument \<^verbatim>\<open>auditLog\<close> hands to \<^verbatim>\<open>createAuditLog\<close> (an \<^verbatim>\<open>InsertAuditLog\<close>).\<close>

record insert_audit_log =
  ins_userId :: "string option"
  ins_action :: string
  ins_endpoint :: string
  ins_method :: string
  ins_metadata :: metadata
  ins_ipAddress :: "string option"

text \<open>Rows of \<^verbatim>\<open>warehouses\<close>, \<^verbatim>\<open>inventory_items\<close>, \<^verbatim>\<open>product_history\<close>, \<^verbatim>\<open>tables\<close>
  and \<^verbatim>\<open>table_rows\<close>, and the insert types of the ones the modelled routes write.\<close>

record warehouse =
  w_id :: string
  w_name :: string
  w_location :: "string option"
  w_description :: "string option"
  w_capacity :: int
  w_createdAt :: date
  w_updatedAt :: date

record insert_warehouse =
  iw_id :: "string option"
  iw_name :: string
  iw_location :: "string option"
  iw_description :: "string option"
  iw_capacity :: "int option"
  iw_createdAt :: "date option"
  iw_updatedAt :: "date option"

text \<open>\<^verbatim>\<open>Partial<InsertWarehouse>\<close> and \<^verbatim>\<open>Partial<InsertInventoryItem>\<close>: \<open>None\<close> is an absent key,
  which an update leaves alone; for a nullable column \<open>Some None\<close> is \<^verbatim>\<open>null\<close>.\<close>

record partial_warehouse =
  pw_id :: "string option"
  pw_name :: "string option"
  pw_location :: "string option option"
  pw_description :: "string option option"
  pw_capacity :: "int option"
  pw_createdAt :: "date option"
  pw_updatedAt :: "date option"

record partial_inventory_item =
  pi_id :: "string option"
  pi_warehouseId :: "string option"
  pi_name :: "string option"
  pi_sku :: "string option"
  pi_category :: "string option option"
  pi_quantity :: "int option"
  pi_unit :: "string option"
  pi_batchNumber :: "string option option"
  pi_expirationDate :: "date option option"
  pi_location :: "string option option"
  pi_description :: "string option option"
  pi_createdAt :: "date option"
  pi_updatedAt :: "date option"

record inventory_item =
  i_id :: string
  i_warehouseId :: string
  i_name :: string
  i_sku :: string
  i_category :: "string option"
  i_quantity :: int
  i_unit :: string
  i_batchNumber :: "string option"
  i_expirationDate :: "date option"
  i_location :: "string option"
  i_description :: "string option"
  i_createdAt :: date
  i_updatedAt :: date

record insert_inventory_item =
  ii_id :: "string option"
  ii_warehouseId :: string
  ii_name :: string
  ii_sku :: string
  ii_category :: "string option"
  ii_quantity :: "int option"
  ii_unit :: "string option"
  ii_batchNumber :: "string option"
  ii_expirationDate :: "date option"
  ii_location :: "string option"
  ii_description :: "string option"
  ii_createdAt :: "date option"
  ii_updatedAt :: "date option"

record product_history =
  h_id :: string
  h_inventoryItemId :: string
  h_actionType :: string
  h_quantityChange :: int
  h_previousQuantity :: int
  h_newQuantity :: int
  h_userId :: "string option"
  h_notes :: "string option"
  h_timestamp :: date

record insert_product_history =
  ih_inventoryItemId :: string
  ih_actionType :: string
  ih_quantityChange :: int
  ih_previousQuantity :: int
  ih_newQuantity :: int
  ih_userId :: "string option"
  ih_notes :: "string option"

record data_table =
  t_id :: string
  t_name :: string
  t_description :: "string option"
  t_createdBy :: "string option"
  t_createdAt :: date

record insert_table =
  it_id :: "string option"
  it_name :: string
  it_description :: "string option"
  it_createdBy :: "string option"
  it_createdAt :: "date option"

record table_row =
  r_id :: string
  r_tableId :: string
  r_createdAt :: date

text \<open>Request bodies are JSON values, as \<^verbatim>\<open>express.json()\<close> parses them. \<open>JNum m k\<close> is
  the decimal number \<open>m / 10 ^ k\<close>. In an object a later occurrence of a key overrides
  an earlier one.\<close>

datatype json =
  JNull | JBool bool | JNum int nat | JStr string | JArr "json list"
  | JObj "(string \<times> json) list"

definition get_field :: "(string \<times> json) list \<Rightarrow> string \<Rightarrow> json option" where
  "get_field kvs k = map_of (rev kvs) k"

text \<open>Row of \<^verbatim>\<open>captured_images\<close>, the object the upload route inserts, and the file that
  multer leaves in \<^verbatim>\<open>req.file\<close> (\<open>f_base64\<close> is \<^verbatim>\<open>buffer.toString("base64")\<close>).\<close>

record captured_image =
  c_id :: string
  c_url :: string
  c_filename :: string
  c_metadata :: json
  c_ocrText :: "string option"
  c_processedData :: json
  c_processingStatus :: string
  c_uploadedBy :: string
  c_createdAt :: date

record insert_captured_image =
  ic_url :: string
  ic_filename :: string
  ic_metadata :: json
  ic_ocrText :: "string option"
  ic_processedData :: json
  ic_processingStatus :: string
  ic_uploadedBy :: string

record uploaded_file =
  f_base64 :: string
  f_mimetype :: string
  f_originalname :: string
  f_size :: nat

datatype error =
  ZodError
  | Error string
  | DatabaseError string
  | ConfigurationError
  | AuthenticationFailed string
  | VisionError
  | MulterError

text \<open>\<^verbatim>\<open>updateUserRoleSchema = z.object({ role: z.enum(userRoles) })\<close>: \<^verbatim>\<open>parse\<close> returns
  the validated data or throws a \<^verbatim>\<open>ZodError\<close>.\<close>

definition updateUserRoleSchema_parse :: "json \<Rightarrow> error + user_role" where
  "updateUserRoleSchema_parse body =
     (case body of
        JObj kvs \<Rightarrow>
          (case get_field kvs ''role'' of
             Some (JStr s) \<Rightarrow>
               (if s \<in> set userRoles
                then (case role_of_name s of Some r \<Rightarrow> Inr r | None \<Rightarrow> Inl ZodError)
                else Inl ZodError)
           | _ \<Rightarrow> Inl ZodError)
      | _ \<Rightarrow> Inl ZodError)"

section \<open>The environment of a request\<close>

text \<open>
  What the server does not decide: the identity provider's answers, the answer of the
  vision service, the clock, the identifiers the database generates, how the database
  reads a text as a \<^verbatim>\<open>uuid\<close>, and whether the insert into \<^verbatim>\<open>audit_logs\<close> throws.
  The relational store is otherwise taken to be available: a query of the model fails
  where the repository's own code throws, where a text is not a \<^verbatim>\<open>uuid\<close> for a \<^verbatim>\<open>uuid\<close>
  column, where a number is outside a 32-bit \<^verbatim>\<open>integer\<close> column, or where a key constraint
  of the migration is violated.

  \<open>uuidOf\<close> is the database's reading of a text that is compared with or written to a
  \<^verbatim>\<open>uuid\<close> column: \<open>None\<close> when it rejects the text (\<^verbatim>\<open>invalid input syntax for type uuid\<close>),
  otherwise the canonical text of the value, in which the database returns it.
\<close>

type_synonym configuration = string

record tokens =
  access_token :: string
  token_type :: string

record userinfo =
  sub :: string
  ui_email :: "string option"
  given_name :: "string option"
  family_name :: "string option"
  picture :: "string option"

text \<open>The query of the callback request: its \<^verbatim>\<open>code\<close> and \<^verbatim>\<open>state\<close> parameters.\<close>

record callback_query =
  q_code :: "string option"
  q_state :: "string option"

record env =
  discovery :: "configuration option"
  tokenResponse :: "configuration \<Rightarrow> callback_query \<Rightarrow> string \<Rightarrow> tokens option"
  userinfoResponse :: "configuration \<Rightarrow> string \<Rightarrow> userinfo option"
  visionResponse :: "string \<Rightarrow> string option option"
  jsonParse :: "string \<Rightarrow> json option"
  auditInsertFails :: bool
  now :: date
  uuid :: "nat \<Rightarrow> string"
  uuidOf :: "string \<Rightarrow> string option"

section \<open>DatabaseStorage (server/db-storage.ts)\<close>

text \<open>
  The state of the server: the module variable \<^verbatim>\<open>oidcConfig\<close> and the tables. \<^verbatim>\<open>users\<close>
  has the caller-chosen primary key \<^verbatim>\<open>id\<close> and is a map from it; the other tables are
  lists of rows in insertion order.
\<close>

record server =
  oidcConfig :: "configuration option"
  users :: "string \<rightharpoonup> user"
  warehouses :: "warehouse list"
  inventoryItems :: "inventory_item list"
  productHistory :: "product_history list"
  tables :: "data_table list"
  tableRows :: "table_row list"
  capturedImages :: "captured_image list"
  auditLogs :: "audit_log list"

definition upsertUser :: "server \<Rightarrow> upsert_user \<Rightarrow> date \<Rightarrow> user \<times> server" where
  "upsertUser srv u t =
     (case users srv (up_id u) of
        Some existingUser \<Rightarrow>
          (let updated = existingUser\<lparr>
                 email := up_email u,
                 firstName := up_firstName u,
                 lastName := up_lastName u,
                 profileImageUrl := up_profileImageUrl u,
                 updatedAt := t\<rparr>
           in (updated, srv\<lparr>users := (users srv)(up_id u \<mapsto> updated)\<rparr>))
      | None \<Rightarrow>
          (let created = \<lparr>
                 uid = up_id u,
                 email = up_email u,
                 firstName = up_firstName u,
                 lastName = up_lastName u,
                 profileImageUrl = up_profileImageUrl u,
                 role = Viewer,
                 createdAt = t,
                 updatedAt = t\<rparr>
           in (created, srv\<lparr>users := (users srv)(up_id u \<mapsto> created)\<rparr>)))"

definition getUserById :: "server \<Rightarrow> string \<Rightarrow> user option" where
  "getUserById srv i = users srv i"

definition updateUserRole :: "server \<Rightarrow> string \<Rightarrow> user_role \<Rightarrow> date \<Rightarrow> error + user \<times> server" where
  "updateUserRole srv userId r t =
     (case users srv userId of
        None \<Rightarrow> Inl (Error ''User not found'')
      | Some u \<Rightarrow>
          (let updated = u\<lparr>role := r, updatedAt := t\<rparr>
           in Inr (updated, srv\<lparr>users := (users srv)(userId \<mapsto> updated)\<rparr>)))"

definition createAuditLog :: "env \<Rightarrow> nat \<Rightarrow> server \<Rightarrow> insert_audit_log \<Rightarrow> error + audit_log \<times> server" where
  "createAuditLog e k srv l =
     (if auditInsertFails e then Inl (DatabaseError ''insert into audit_logs failed'')
      else
        (let created = \<lparr>
               log_id = uuid e k,
               log_userId = ins_userId l,
               action = ins_action l,
               endpoint = ins_endpoint l,
               http_method = ins_method l,
               metadata = ins_metadata l,
               ipAddress = ins_ipAddress l,
               timestamp = now e\<rparr>
         in Inr (created, srv\<lparr>auditLogs := auditLogs srv @ [created]\<rparr>)))"

text \<open>The errors of the database: a text that is no \<^verbatim>\<open>uuid\<close>, a number outside the 32-bit
  \<^verbatim>\<open>integer\<close> type, a duplicate primary key, a violated foreign key.\<close>

definition invalid_uuid :: error where
  "invalid_uuid = DatabaseError ''invalid input syntax for type uuid''"

definition out_of_range :: error where
  "out_of_range = DatabaseError ''value out of range for type integer''"

definition duplicate_key :: error where
  "duplicate_key = DatabaseError ''duplicate key value violates unique constraint''"

definition foreign_key :: error where
  "foreign_key = DatabaseError ''violates foreign key constraint''"

definition int32 :: "int \<Rightarrow> bool" where
  "int32 n = (- 2147483648 \<le> n \<and> n \<le> 2147483647)"

text \<open>
  In the operations below \<open>rd\<close> is the database's reading of a \<^verbatim>\<open>uuid\<close> (the \<open>uuidOf\<close> of the
  environment), \<open>newId\<close> the identifier it generates when the insert carries none, and
  \<open>d\<close> the time of the call. The values of a statement are read before it runs, so a
  malformed \<^verbatim>\<open>uuid\<close> or a number out of range fails it whatever the rows are.
\<close>

definition createWarehouse ::
  "(string \<Rightarrow> string option) \<Rightarrow> server \<Rightarrow> insert_warehouse \<Rightarrow> string \<Rightarrow> date
     \<Rightarrow> error + warehouse \<times> server" where
  "createWarehouse rd srv w newId d =
     (case (case iw_id w of Some i \<Rightarrow> rd i | None \<Rightarrow> Some newId) of
        None \<Rightarrow> Inl invalid_uuid
      | Some k \<Rightarrow>
          (let created = \<lparr>
                 w_id = k,
                 w_name = iw_name w,
                 w_location = iw_location w,
                 w_description = iw_description w,
                 w_capacity = (case iw_capacity w of Some c \<Rightarrow> c | None \<Rightarrow> 0),
                 w_createdAt = (case iw_createdAt w of Some c \<Rightarrow> c | None \<Rightarrow> d),
                 w_updatedAt = (case iw_updatedAt w of Some c \<Rightarrow> c | None \<Rightarrow> d)\<rparr>
           in if \<not> int32 (w_capacity created) then Inl out_of_range
              else if k \<in> set (map w_id (warehouses srv)) then Inl duplicate_key
              else Inr (created, srv\<lparr>warehouses := warehouses srv @ [created]\<rparr>)))"

text \<open>\<^verbatim>\<open>updateWarehouse\<close>: \<^verbatim>\<open>set({ ...warehouse, updatedAt: new Date() })\<close> on the row with the
  given id; no row updated is \<^verbatim>\<open>Warehouse not found\<close>. A new id must be free, and the old one
  must not be referenced by an inventory item.\<close>

definition updateWarehouse ::
  "(string \<Rightarrow> string option) \<Rightarrow> server \<Rightarrow> string \<Rightarrow> partial_warehouse \<Rightarrow> date
     \<Rightarrow> error + warehouse \<times> server" where
  "updateWarehouse rd srv i w d =
     (case (rd i, (case pw_id w of Some j \<Rightarrow> rd j | None \<Rightarrow> rd i)) of
        (Some k, Some k') \<Rightarrow>
          (if (case pw_capacity w of Some c \<Rightarrow> \<not> int32 c | None \<Rightarrow> False) then Inl out_of_range
           else
             (case find (\<lambda>x. w_id x = k) (warehouses srv) of
                None \<Rightarrow> Inl (Error ''Warehouse not found'')
              | Some old \<Rightarrow>
                  (if k' \<noteq> k \<and> k' \<in> set (map w_id (warehouses srv)) then Inl duplicate_key
                   else if k' \<noteq> k \<and> k \<in> set (map i_warehouseId (inventoryItems srv))
                   then Inl foreign_key
                   else
                     (let updated = \<lparr>
                            w_id = k',
                            w_name = (case pw_name w of Some n \<Rightarrow> n | None \<Rightarrow> w_name old),
                            w_location =
                              (case pw_location w of Some l \<Rightarrow> l | None \<Rightarrow> w_location old),
                            w_description =
                              (case pw_description w of Some l \<Rightarrow> l | None \<Rightarrow> w_description old),
                            w_capacity =
                              (case pw_capacity w of Some c \<Rightarrow> c | None \<Rightarrow> w_capacity old),
                            w_createdAt =
                              (case pw_createdAt w of Some c \<Rightarrow> c | None \<Rightarrow> w_createdAt old),
                            w_updatedAt = d\<rparr>
                      in Inr (updated,
                              srv\<lparr>warehouses :=
                                    map (\<lambda>x. if w_id x = k then updated else x)
                                      (warehouses srv)\<rparr>)))))
      | _ \<Rightarrow> Inl invalid_uuid)"

text \<open>\<^verbatim>\<open>deleteWarehouse\<close>: the inventory items of the warehouse go with it, and their
  history with them (\<^verbatim>\<open>ON DELETE CASCADE\<close>).\<close>

definition deleteWarehouse :: "(string \<Rightarrow> string option) \<Rightarrow> server \<Rightarrow> string \<Rightarrow> error + server" where
  "deleteWarehouse rd srv i =
     (case rd i of
        None \<Rightarrow> Inl invalid_uuid
      | Some k \<Rightarrow>
          (let gone = map i_id (filter (\<lambda>x. i_warehouseId x = k) (inventoryItems srv))
           in Inr (srv\<lparr>
                 warehouses := filter (\<lambda>x. w_id x \<noteq> k) (warehouses srv),
                 inventoryItems := filter (\<lambda>x. i_warehouseId x \<noteq> k) (inventoryItems srv),
                 productHistory :=
                   filter (\<lambda>h. h_inventoryItemId h \<notin> set gone) (productHistory srv)\<rparr>)))"

definition createInventoryItem ::
  "(string \<Rightarrow> string option) \<Rightarrow> server \<Rightarrow> insert_inventory_item \<Rightarrow> string \<Rightarrow> date
     \<Rightarrow> error + inventory_item \<times> server" where
  "createInventoryItem rd srv item newId d =
     (case ((case ii_id item of Some i \<Rightarrow> rd i | None \<Rightarrow> Some newId),
            rd (ii_warehouseId item)) of
        (Some k, Some wk) \<Rightarrow>
          (let created = \<lparr>
                 i_id = k,
                 i_warehouseId = wk,
                 i_name = ii_name item,
                 i_sku = ii_sku item,
                 i_category = ii_category item,
                 i_quantity = (case ii_quantity item of Some q \<Rightarrow> q | None \<Rightarrow> 0),
                 i_unit = (case ii_unit item of Some u \<Rightarrow> u | None \<Rightarrow> ''pcs''),
                 i_batchNumber = ii_batchNumber item,
                 i_expirationDate = ii_expirationDate item,
                 i_location = ii_location item,
                 i_description = ii_description item,
                 i_createdAt = (case ii_createdAt item of Some c \<Rightarrow> c | None \<Rightarrow> d),
                 i_updatedAt = (case ii_updatedAt item of Some c \<Rightarrow> c | None \<Rightarrow> d)\<rparr>
           in if \<not> int32 (i_quantity created) then Inl out_of_range
              else if k \<in> set (map i_id (inventoryItems srv)) then Inl duplicate_key
              else if wk \<notin> set (map w_id (warehouses srv)) then Inl foreign_key
              else Inr (created, srv\<lparr>inventoryItems := inventoryItems srv @ [created]\<rparr>))
      | _ \<Rightarrow> Inl invalid_uuid)"

definition getInventoryItemById ::
  "(string \<Rightarrow> string option) \<Rightarrow> server \<Rightarrow> string \<Rightarrow> error + inventory_item option" where
  "getInventoryItemById rd srv i =
     (case rd i of
        None \<Rightarrow> Inl invalid_uuid
      | Some k \<Rightarrow> Inr (find (\<lambda>x. i_id x = k) (inventoryItems srv)))"

text \<open>
  \<^verbatim>\<open>updateInventoryItem\<close>: \<^verbatim>\<open>set({ ...item, expirationDate: item.expirationDate ? new
  Date(item.expirationDate) : undefined, updatedAt: new Date() })\<close>; a \<^verbatim>\<open>null\<close> or absent
  \<^verbatim>\<open>expirationDate\<close> leaves the column alone. No row updated is \<^verbatim>\<open>Inventory item not found\<close>.
\<close>

definition updateInventoryItem ::
  "(string \<Rightarrow> string option) \<Rightarrow> server \<Rightarrow> string \<Rightarrow> partial_inventory_item \<Rightarrow> date
     \<Rightarrow> error + inventory_item \<times> server" where
  "updateInventoryItem rd srv i item d =
     (case (rd i,
            (case pi_id item of Some j \<Rightarrow> rd j | None \<Rightarrow> rd i),
            (case pi_warehouseId item of Some w \<Rightarrow> map_option Some (rd w) | None \<Rightarrow> Some None)) of
        (Some k, Some k', Some wk) \<Rightarrow>
          (if (case pi_quantity item of Some q \<Rightarrow> \<not> int32 q | None \<Rightarrow> False) then Inl out_of_range
           else
             (case find (\<lambda>x. i_id x = k) (inventoryItems srv) of
                None \<Rightarrow> Inl (Error ''Inventory item not found'')
              | Some old \<Rightarrow>
                  (if k' \<noteq> k \<and> k' \<in> set (map i_id (inventoryItems srv)) then Inl duplicate_key
                   else if k' \<noteq> k \<and> k \<in> set (map h_inventoryItemId (productHistory srv))
                   then Inl foreign_key
                   else if (case wk of Some w \<Rightarrow> w \<notin> set (map w_id (warehouses srv))
                            | None \<Rightarrow> False)
                   then Inl foreign_key
                   else
                     (let updated = \<lparr>
                            i_id = k',
                            i_warehouseId =
                              (case wk of Some w \<Rightarrow> w | None \<Rightarrow> i_warehouseId old),
                            i_name = (case pi_name item of Some n \<Rightarrow> n | None \<Rightarrow> i_name old),
                            i_sku = (case pi_sku item of Some n \<Rightarrow> n | None \<Rightarrow> i_sku old),
                            i_category =
                              (case pi_category item of Some c \<Rightarrow> c | None \<Rightarrow> i_category old),
                            i_quantity =
                              (case pi_quantity item of Some q \<Rightarrow> q | None \<Rightarrow> i_quantity old),
                            i_unit = (case pi_unit item of Some u \<Rightarrow> u | None \<Rightarrow> i_unit old),
                            i_batchNumber =
                              (case pi_batchNumber item of Some b \<Rightarrow> b
                               | None \<Rightarrow> i_batchNumber old),
                            i_expirationDate =
                              (case pi_expirationDate item of Some (Some x) \<Rightarrow> Some x
                               | _ \<Rightarrow> i_expirationDate old),
                            i_location =
                              (case pi_location item of Some l \<Rightarrow> l | None \<Rightarrow> i_location old),
                            i_description =
                              (case pi_description item of Some l \<Rightarrow> l
                               | None \<Rightarrow> i_description old),
                            i_createdAt =
                              (case pi_createdAt item of Some c \<Rightarrow> c | None \<Rightarrow> i_createdAt old),
                            i_updatedAt = d\<rparr>
                      in Inr (updated,
                              srv\<lparr>inventoryItems :=
                                    map (\<lambda>x. if i_id x = k then updated else x)
                                      (inventoryItems srv)\<rparr>)))))
      | _ \<Rightarrow> Inl invalid_uuid)"

definition deleteInventoryItem ::
  "(string \<Rightarrow> string option) \<Rightarrow> server \<Rightarrow> string \<Rightarrow> error + server" where
  "deleteInventoryItem rd srv i =
     (case rd i of
        None \<Rightarrow> Inl invalid_uuid
      | Some k \<Rightarrow>
          Inr (srv\<lparr>
            inventoryItems := filter (\<lambda>x. i_id x \<noteq> k) (inventoryItems srv),
            productHistory := filter (\<lambda>h. h_inventoryItemId h \<noteq> k) (productHistory srv)\<rparr>))"

definition createProductHistory ::
  "(string \<Rightarrow> string option) \<Rightarrow> server \<Rightarrow> insert_product_history \<Rightarrow> string \<Rightarrow> date
     \<Rightarrow> error + product_history \<times> server" where
  "createProductHistory rd srv h newId d =
     (case rd (ih_inventoryItemId h) of
        None \<Rightarrow> Inl invalid_uuid
      | Some k \<Rightarrow>
          (let created = \<lparr>
                 h_id = newId,
                 h_inventoryItemId = k,
                 h_actionType = ih_actionType h,
                 h_quantityChange = ih_quantityChange h,
                 h_previousQuantity = ih_previousQuantity h,
                 h_newQuantity = ih_newQuantity h,
                 h_userId = ih_userId h,
                 h_notes = ih_notes h,
                 h_timestamp = d\<rparr>
           in if \<not> (int32 (h_quantityChange created) \<and> int32 (h_previousQuantity created) \<and>
                     int32 (h_newQuantity created))
              then Inl out_of_range
              else if newId \<in> set (map h_id (productHistory srv)) then Inl duplicate_key
              else if k \<notin> set (map i_id (inventoryItems srv)) then Inl foreign_key
              else Inr (created, srv\<lparr>productHistory := productHistory srv @ [created]\<rparr>)))"

text \<open>\<^verbatim>\<open>createTable\<close>: the primary key is the caller's \<^verbatim>\<open>id\<close> when the insert carries one,
  the generated identifier otherwise.\<close>

definition createTable ::
  "(string \<Rightarrow> string option) \<Rightarrow> server \<Rightarrow> insert_table \<Rightarrow> string \<Rightarrow> date
     \<Rightarrow> error + data_table \<times> server" where
  "createTable rd srv t newId d =
     (case (case it_id t of Some i \<Rightarrow> rd i | None \<Rightarrow> Some newId) of
        None \<Rightarrow> Inl invalid_uuid
      | Some k \<Rightarrow>
          (let created = \<lparr>
                 t_id = k,
                 t_name = it_name t,
                 t_description = it_description t,
                 t_createdBy = it_createdBy t,
                 t_createdAt = (case it_createdAt t of Some c \<Rightarrow> c | None \<Rightarrow> d)\<rparr>
           in if k \<in> set (map t_id (tables srv)) then Inl duplicate_key
              else Inr (created, srv\<lparr>tables := tables srv @ [created]\<rparr>)))"

text \<open>\<^verbatim>\<open>deleteTable\<close>: the rows of the table go with it (\<^verbatim>\<open>ON DELETE CASCADE\<close>).\<close>

definition deleteTable :: "(string \<Rightarrow> string option) \<Rightarrow> server \<Rightarrow> string \<Rightarrow> error + server" where
  "deleteTable rd srv i =
     (case rd i of
        None \<Rightarrow> Inl invalid_uuid
      | Some k \<Rightarrow>
          Inr (srv\<lparr>tables := filter (\<lambda>t. t_id t \<noteq> k) (tables srv),
                   tableRows := filter (\<lambda>r. r_tableId r \<noteq> k) (tableRows srv)\<rparr>))"

definition createCapturedImage ::
  "server \<Rightarrow> insert_captured_image \<Rightarrow> string \<Rightarrow> date \<Rightarrow> error + captured_image \<times> server" where
  "createCapturedImage srv img newId d =
     (let created = \<lparr>
            c_id = newId,
            c_url = ic_url img,
            c_filename = ic_filename img,
            c_metadata = ic_metadata img,
            c_ocrText = ic_ocrText img,
            c_processedData = ic_processedData img,
            c_processingStatus = ic_processingStatus img,
            c_uploadedBy = ic_uploadedBy img,
            c_createdAt = d\<rparr>
      in if newId \<in> set (map c_id (capturedImages srv)) then Inl duplicate_key
         else Inr (created, srv\<lparr>capturedImages := capturedImages srv @ [created]\<rparr>))"

text \<open>
  \<^verbatim>\<open>getAuditLogs(limit = 100)\<close>: \<^verbatim>\<open>select().from(auditLogs).orderBy(auditLogs.timestamp).limit(limit)\<close>.
  \<^verbatim>\<open>orderBy\<close> of a column sorts ascending. Rows with equal timestamps come in an order the
  database chooses; the model keeps their insertion order.
\<close>

definition getAuditLogs :: "server \<Rightarrow> nat option \<Rightarrow> audit_log list" where
  "getAuditLogs srv limit =
     take (case limit of None \<Rightarrow> 100 | Some n \<Rightarrow> n) (sort_key timestamp (auditLogs srv))"

text \<open>The query for \<^verbatim>\<open>recentActivity\<close> in \<^verbatim>\<open>getDashboardStats\<close>:
  \<^verbatim>\<open>orderBy(sql`${auditLogs.timestamp} DESC`).limit(5)\<close>.\<close>

definition recentLogs :: "server \<Rightarrow> audit_log list" where
  "recentLogs srv = take 5 (rev (sort_key timestamp (auditLogs srv)))"

text \<open>The retrieval in the words of the specification, for comparison: the \<open>n\<close> most recent
  entries, ordered by timestamp descending.\<close>

definition recentEntries_spec :: "audit_log list \<Rightarrow> nat \<Rightarrow> audit_log list" where
  "recentEntries_spec logs n = take n (rev (sort_key timestamp logs))"

section \<open>MemStorage (server/storage.ts)\<close>

text \<open>The in-memory implementation of the same interface: \<^verbatim>\<open>users\<close> is a \<^verbatim>\<open>Map\<close> from id,
  \<^verbatim>\<open>auditLogs\<close> an array.\<close>

definition upsertUser_mem :: "(string \<rightharpoonup> user) \<Rightarrow> upsert_user \<Rightarrow> date \<Rightarrow> user \<times> (string \<rightharpoonup> user)" where
  "upsertUser_mem m u t =
     (let existing = m (up_id u);
          fullUser = \<lparr>
            uid = up_id u,
            email = up_email u,
            firstName = up_firstName u,
            lastName = up_lastName u,
            profileImageUrl = up_profileImageUrl u,
            role = (case existing of Some x \<Rightarrow> role x | None \<Rightarrow> Viewer),
            createdAt = (case existing of Some x \<Rightarrow> createdAt x | None \<Rightarrow> t),
            updatedAt = t\<rparr>
      in (fullUser, m(up_id u \<mapsto> fullUser)))"

text \<open>\<^verbatim>\<open>this.auditLogs.slice(-limit)\<close>: a negative start counts from the end, and
  \<^verbatim>\<open>slice(-0)\<close> is \<^verbatim>\<open>slice(0)\<close>, the whole array.\<close>

definition slice_from :: "'a list \<Rightarrow> int \<Rightarrow> 'a list" where
  "slice_from xs start =
     (let len = int (length xs);
          k = (if start < 0 then max (len + start) 0 else min start len)
      in drop (nat k) xs)"

definition getAuditLogs_mem :: "audit_log list \<Rightarrow> int option \<Rightarrow> audit_log list" where
  "getAuditLogs_mem logs limit =
     slice_from logs (- (case limit of None \<Rightarrow> 100 | Some n \<Rightarrow> n))"

section \<open>Authentication and authorization middleware (server/auth.ts)\<close>

record session =
  userId :: "string option"
  codeVerifier :: "string option"
  state :: "string option"

datatype payload =
  Json_message string
  | Json_error error
  | Json_user user
  | Json_item inventory_item
  | Json_table data_table
  | Json_warehouse warehouse
  | Json_upload string json json
  | Send string
  | Redirect string
  | Empty

record response =
  status :: nat
  payload :: payload

text \<open>JavaScript's \<^verbatim>\<open>!s\<close> for an optional string: true of \<^verbatim>\<open>undefined\<close> and of the empty string.\<close>

definition falsy :: "string option \<Rightarrow> bool" where
  "falsy s = (case s of None \<Rightarrow> True | Some x \<Rightarrow> x = [])"

text \<open>\<^verbatim>\<open>s || null\<close>\<close>

definition or_null :: "string option \<Rightarrow> string option" where
  "or_null s = (if falsy s then None else s)"

text \<open>\<^verbatim>\<open>isAuthenticated\<close> answers itself (\<open>Inl\<close>) or attaches the user and calls
  \<^verbatim>\<open>next()\<close> (\<open>Inr\<close>). Its \<^verbatim>\<open>catch\<close>, which answers 500, is reached only when the
  lookup of the user itself throws, which an available store does not do.\<close>

definition isAuthenticated :: "server \<Rightarrow> session \<Rightarrow> response + user" where
  "isAuthenticated srv sess =
     (if falsy (userId sess)
      then Inl \<lparr>status = 401, payload = Json_message ''Unauthorized: No user session''\<rparr>
      else
        (case userId sess of
           None \<Rightarrow> Inl \<lparr>status = 401, payload = Json_message ''Unauthorized: No user session''\<rparr>
         | Some i \<Rightarrow>
             (case getUserById srv i of
                None \<Rightarrow> Inl \<lparr>status = 401, payload = Json_message ''Unauthorized: User not found''\<rparr>
              | Some u \<Rightarrow> Inr u)))"

text \<open>\<^verbatim>\<open>requireRole(...allowedRoles)\<close>: \<open>Some\<close> response when it answers itself, \<open>None\<close>
  when it calls \<^verbatim>\<open>next()\<close>.\<close>

definition requireRole :: "string list \<Rightarrow> user option \<Rightarrow> response option" where
  "requireRole allowedRoles req_user =
     (case req_user of
        None \<Rightarrow> Some \<lparr>status = 401, payload = Json_message ''Unauthorized''\<rparr>
      | Some u \<Rightarrow>
          (if role_name (role u) \<notin> set allowedRoles
           then Some \<lparr>status = 403, payload = Json_message ''Forbidden: Insufficient permissions''\<rparr>
           else None))"

text \<open>\<^verbatim>\<open>auditLog\<close>: the \<^verbatim>\<open>try\<close>/\<^verbatim>\<open>catch\<close> around \<^verbatim>\<open>storage.createAuditLog\<close>; the caught error
  goes to the console only. \<open>k\<close> counts the identifiers the database has generated for
  the request so far.\<close>

definition auditLog ::
  "env \<Rightarrow> nat \<Rightarrow> server \<Rightarrow> string option \<Rightarrow> string \<Rightarrow> string \<Rightarrow> string \<Rightarrow> metadata option
     \<Rightarrow> string option \<Rightarrow> server" where
  "auditLog e k srv actorId act ep m details ip =
     (case createAuditLog e k srv \<lparr>
             ins_userId = or_null actorId,
             ins_action = act,
             ins_endpoint = ep,
             ins_method = m,
             ins_metadata = (case details of Some d \<Rightarrow> d | None \<Rightarrow> []),
             ins_ipAddress = or_null ip\<rparr> of
        Inl err \<Rightarrow> srv
      | Inr (created, srv') \<Rightarrow> srv')"

section \<open>Routes (server/routes.ts)\<close>

text \<open>The mutating and user-management routes, and the argument of the \<^verbatim>\<open>requireRole\<close>
  middleware each one is registered with (\<open>None\<close>: registered without \<^verbatim>\<open>requireRole\<close>).\<close>

datatype route =
  PostWarehouses | PatchWarehouse | DeleteWarehouse
  | PostInventory | PatchInventory | DeleteInventory
  | PostTables | DeleteTable
  | PostImagesUpload
  | GetUsers | PatchUserRole

fun allowedRoles :: "route \<Rightarrow> string list option" where
  "allowedRoles PostWarehouses = Some [''super_admin'', ''admin'', ''manager'']"
| "allowedRoles PatchWarehouse = Some [''super_admin'', ''admin'', ''manager'']"
| "allowedRoles DeleteWarehouse = Some [''super_admin'', ''admin'']"
| "allowedRoles PostInventory = Some [''super_admin'', ''admin'', ''manager'']"
| "allowedRoles PatchInventory = Some [''super_admin'', ''admin'', ''manager'']"
| "allowedRoles DeleteInventory = Some [''super_admin'', ''admin'']"
| "allowedRoles PostTables = None"
| "allowedRoles DeleteTable = None"
| "allowedRoles PostImagesUpload = None"
| "allowedRoles GetUsers = Some [''super_admin'', ''admin'']"
| "allowedRoles PatchUserRole = Some [''super_admin'', ''admin'']"

text \<open>The middleware chain in front of a handler: \<open>Inl\<close> the response of the middleware
  that stopped the request, \<open>Inr\<close> the user the handler finds in \<^verbatim>\<open>req.user\<close>.\<close>

definition middleware :: "route \<Rightarrow> server \<Rightarrow> session \<Rightarrow> response + user" where
  "middleware rt srv sess =
     (case isAuthenticated srv sess of
        Inl res \<Rightarrow> Inl res
      | Inr u \<Rightarrow>
          (case allowedRoles rt of
             None \<Rightarrow> Inr u
           | Some rs \<Rightarrow>
               (case requireRole rs (Some u) of
                  Some res \<Rightarrow> Inl res
                | None \<Rightarrow> Inr u)))"

record request =
  params_id :: string
  body :: json
  ip :: "string option"

text \<open>
  The schemas \<^verbatim>\<open>insertWarehouseSchema\<close>, \<^verbatim>\<open>insertInventoryItemSchema\<close> and
  \<^verbatim>\<open>insertTableSchema\<close> are generated by drizzle-zod from the table declarations. The
  \<^verbatim>\<open>parse\<close> of each, and of its \<^verbatim>\<open>partial()\<close>, is a parameter of the route that calls it.
\<close>

text \<open>\<^verbatim>\<open>POST /api/warehouses\<close>\<close>

definition post_warehouses ::
  "(json \<Rightarrow> error + insert_warehouse) \<Rightarrow> env \<Rightarrow> server \<Rightarrow> user \<Rightarrow> request \<Rightarrow> response \<times> server" where
  "post_warehouses insertWarehouseSchema_parse e srv req_user req =
     (case insertWarehouseSchema_parse (body req) of
        Inl err \<Rightarrow> (\<lparr>status = 400, payload = Json_error err\<rparr>, srv)
      | Inr data \<Rightarrow>
          (case createWarehouse (uuidOf e) srv data (uuid e 0) (now e) of
             Inl err \<Rightarrow> (\<lparr>status = 400, payload = Json_error err\<rparr>, srv)
           | Inr (w, srv1) \<Rightarrow>
               (let srv2 = auditLog e 1 srv1 (Some (uid req_user)) ''CREATE_WAREHOUSE''
                             ''/api/warehouses'' ''POST'' (Some [(''warehouseId'', w_id w)]) (ip req)
                in (\<lparr>status = 201, payload = Json_warehouse w\<rparr>, srv2))))"

definition route_post_warehouses ::
  "(json \<Rightarrow> error + insert_warehouse) \<Rightarrow> env \<Rightarrow> server \<Rightarrow> session \<Rightarrow> request
     \<Rightarrow> response \<times> server" where
  "route_post_warehouses insertWarehouseSchema_parse e srv sess req =
     (case middleware PostWarehouses srv sess of
        Inl res \<Rightarrow> (res, srv)
      | Inr u \<Rightarrow> post_warehouses insertWarehouseSchema_parse e srv u req)"

text \<open>\<^verbatim>\<open>PATCH /api/warehouses/:id\<close>\<close>

definition patch_warehouse ::
  "(json \<Rightarrow> error + partial_warehouse) \<Rightarrow> env \<Rightarrow> server \<Rightarrow> user \<Rightarrow> request \<Rightarrow> response \<times> server" where
  "patch_warehouse partial_parse e srv req_user req =
     (case partial_parse (body req) of
        Inl err \<Rightarrow> (\<lparr>status = 400, payload = Json_error err\<rparr>, srv)
      | Inr data \<Rightarrow>
          (case updateWarehouse (uuidOf e) srv (params_id req) data (now e) of
             Inl err \<Rightarrow> (\<lparr>status = 400, payload = Json_error err\<rparr>, srv)
           | Inr (w, srv1) \<Rightarrow>
               (let srv2 = auditLog e 0 srv1 (Some (uid req_user)) ''UPDATE_WAREHOUSE''
                             (''/api/warehouses/'' @ params_id req) ''PATCH''
                             (Some [(''warehouseId'', params_id req)]) (ip req)
                in (\<lparr>status = 200, payload = Json_warehouse w\<rparr>, srv2))))"

definition route_patch_warehouse ::
  "(json \<Rightarrow> error + partial_warehouse) \<Rightarrow> env \<Rightarrow> server \<Rightarrow> session \<Rightarrow> request
     \<Rightarrow> response \<times> server" where
  "route_patch_warehouse partial_parse e srv sess req =
     (case middleware PatchWarehouse srv sess of
        Inl res \<Rightarrow> (res, srv)
      | Inr u \<Rightarrow> patch_warehouse partial_parse e srv u req)"

text \<open>\<^verbatim>\<open>DELETE /api/warehouses/:id\<close>\<close>

definition delete_warehouse :: "env \<Rightarrow> server \<Rightarrow> user \<Rightarrow> request \<Rightarrow> response \<times> server" where
  "delete_warehouse e srv req_user req =
     (case deleteWarehouse (uuidOf e) srv (params_id req) of
        Inl err \<Rightarrow> (\<lparr>status = 500, payload = Json_error err\<rparr>, srv)
      | Inr srv1 \<Rightarrow>
          (let srv2 = auditLog e 0 srv1 (Some (uid req_user)) ''DELETE_WAREHOUSE''
                        (''/api/warehouses/'' @ params_id req) ''DELETE''
                        (Some [(''warehouseId'', params_id req)]) (ip req)
           in (\<lparr>status = 204, payload = Empty\<rparr>, srv2)))"

definition route_delete_warehouse :: "env \<Rightarrow> server \<Rightarrow> session \<Rightarrow> request \<Rightarrow> response \<times> server" where
  "route_delete_warehouse e srv sess req =
     (case middleware DeleteWarehouse srv sess of
        Inl res \<Rightarrow> (res, srv)
      | Inr u \<Rightarrow> delete_warehouse e srv u req)"

text \<open>
  \<^verbatim>\<open>POST /api/inventory\<close>. The three inserts are three statements: an insert that throws
  leaves the earlier ones in place.
\<close>

definition post_inventory ::
  "(json \<Rightarrow> error + insert_inventory_item) \<Rightarrow> env \<Rightarrow> server \<Rightarrow> user \<Rightarrow> request
     \<Rightarrow> response \<times> server" where
  "post_inventory insertInventoryItemSchema_parse e srv req_user req =
     (case insertInventoryItemSchema_parse (body req) of
        Inl err \<Rightarrow> (\<lparr>status = 400, payload = Json_error err\<rparr>, srv)
      | Inr data \<Rightarrow>
          (case createInventoryItem (uuidOf e) srv data (uuid e 0) (now e) of
             Inl err \<Rightarrow> (\<lparr>status = 400, payload = Json_error err\<rparr>, srv)
           | Inr (item, srv1) \<Rightarrow>
               (case createProductHistory (uuidOf e) srv1 \<lparr>
                       ih_inventoryItemId = i_id item,
                       ih_actionType = ''in'',
                       ih_quantityChange = i_quantity item,
                       ih_previousQuantity = 0,
                       ih_newQuantity = i_quantity item,
                       ih_userId = or_null (Some (uid req_user)),
                       ih_notes = Some ''Initial inventory''\<rparr> (uuid e 1) (now e) of
                  Inl err \<Rightarrow> (\<lparr>status = 400, payload = Json_error err\<rparr>, srv1)
                | Inr (h, srv2) \<Rightarrow>
                    (let srv3 = auditLog e 2 srv2 (Some (uid req_user)) ''CREATE_INVENTORY''
                                  ''/api/inventory'' ''POST''
                                  (Some [(''itemId'', i_id item), (''sku'', i_sku item)]) (ip req)
                     in (\<lparr>status = 201, payload = Json_item item\<rparr>, srv3)))))"

definition route_post_inventory ::
  "(json \<Rightarrow> error + insert_inventory_item) \<Rightarrow> env \<Rightarrow> server \<Rightarrow> session \<Rightarrow> request
     \<Rightarrow> response \<times> server" where
  "route_post_inventory insertInventoryItemSchema_parse e srv sess req =
     (case middleware PostInventory srv sess of
        Inl res \<Rightarrow> (res, srv)
      | Inr u \<Rightarrow> post_inventory insertInventoryItemSchema_parse e srv u req)"

text \<open>\<^verbatim>\<open>PATCH /api/inventory/:id\<close>. A history row is written when the body carries a
  quantity that differs from the current one; the audit entry follows it.\<close>

definition patch_inventory ::
  "(json \<Rightarrow> error + partial_inventory_item) \<Rightarrow> env \<Rightarrow> server \<Rightarrow> user \<Rightarrow> request
     \<Rightarrow> response \<times> server" where
  "patch_inventory partial_parse e srv req_user req =
     (case getInventoryItemById (uuidOf e) srv (params_id req) of
        Inl err \<Rightarrow> (\<lparr>status = 400, payload = Json_error err\<rparr>, srv)
      | Inr None \<Rightarrow> (\<lparr>status = 404, payload = Json_message ''Item not found''\<rparr>, srv)
      | Inr (Some currentItem) \<Rightarrow>
          (case partial_parse (body req) of
             Inl err \<Rightarrow> (\<lparr>status = 400, payload = Json_error err\<rparr>, srv)
           | Inr data \<Rightarrow>
               (case updateInventoryItem (uuidOf e) srv (params_id req) data (now e) of
                  Inl err \<Rightarrow> (\<lparr>status = 400, payload = Json_error err\<rparr>, srv)
                | Inr (item, srv1) \<Rightarrow>
                    (let adjusted =
                           (case pi_quantity data of
                              Some q \<Rightarrow> if q \<noteq> i_quantity currentItem then Some q else None
                            | None \<Rightarrow> None)
                     in case adjusted of
                          None \<Rightarrow>
                            (let srv2 = auditLog e 0 srv1 (Some (uid req_user)) ''UPDATE_INVENTORY''
                                          (''/api/inventory/'' @ params_id req) ''PATCH''
                                          (Some [(''itemId'', params_id req)]) (ip req)
                             in (\<lparr>status = 200, payload = Json_item item\<rparr>, srv2))
                        | Some q \<Rightarrow>
                            (case createProductHistory (uuidOf e) srv1 \<lparr>
                                    ih_inventoryItemId = i_id item,
                                    ih_actionType = ''adjust'',
                                    ih_quantityChange = q - i_quantity currentItem,
                                    ih_previousQuantity = i_quantity currentItem,
                                    ih_newQuantity = q,
                                    ih_userId = or_null (Some (uid req_user)),
                                    ih_notes = Some ''Quantity adjusted''\<rparr> (uuid e 0) (now e) of
                               Inl err \<Rightarrow> (\<lparr>status = 400, payload = Json_error err\<rparr>, srv1)
                             | Inr (h, srv2) \<Rightarrow>
                                 (let srv3 = auditLog e 1 srv2 (Some (uid req_user))
                                               ''UPDATE_INVENTORY''
                                               (''/api/inventory/'' @ params_id req) ''PATCH''
                                               (Some [(''itemId'', params_id req)]) (ip req)
                                  in (\<lparr>status = 200, payload = Json_item item\<rparr>, srv3)))))))"

definition route_patch_inventory ::
  "(json \<Rightarrow> error + partial_inventory_item) \<Rightarrow> env \<Rightarrow> server \<Rightarrow> session \<Rightarrow> request
     \<Rightarrow> response \<times> server" where
  "route_patch_inventory partial_parse e srv sess req =
     (case middleware PatchInventory srv sess of
        Inl res \<Rightarrow> (res, srv)
      | Inr u \<Rightarrow> patch_inventory partial_parse e srv u req)"

text \<open>\<^verbatim>\<open>DELETE /api/inventory/:id\<close>\<close>

definition delete_inventory :: "env \<Rightarrow> server \<Rightarrow> user \<Rightarrow> request \<Rightarrow> response \<times> server" where
  "delete_inventory e srv req_user req =
     (case deleteInventoryItem (uuidOf e) srv (params_id req) of
        Inl err \<Rightarrow> (\<lparr>status = 500, payload = Json_error err\<rparr>, srv)
      | Inr srv1 \<Rightarrow>
          (let srv2 = auditLog e 0 srv1 (Some (uid req_user)) ''DELETE_INVENTORY''
                        (''/api/inventory/'' @ params_id req) ''DELETE''
                        (Some [(''itemId'', params_id req)]) (ip req)
           in (\<lparr>status = 204, payload = Empty\<rparr>, srv2)))"

definition route_delete_inventory :: "env \<Rightarrow> server \<Rightarrow> session \<Rightarrow> request \<Rightarrow> response \<times> server" where
  "route_delete_inventory e srv sess req =
     (case middleware DeleteInventory srv sess of
        Inl res \<Rightarrow> (res, srv)
      | Inr u \<Rightarrow> delete_inventory e srv u req)"

text \<open>The decimal name of an array index, for the spread of an array.\<close>

fun dec :: "nat \<Rightarrow> string" where
  "dec n = (if n < 10 then [char_of (48 + n)] else dec (n div 10) @ [char_of (48 + n mod 10)])"

text \<open>\<^verbatim>\<open>{ ...req.body, createdBy: req.user?.id }\<close>: the own enumerable properties of the
  body, then the key \<^verbatim>\<open>createdBy\<close>.\<close>

definition spread :: "json \<Rightarrow> (string \<times> json) list" where
  "spread j =
     (case j of
        JObj kvs \<Rightarrow> kvs
      | JArr xs \<Rightarrow> zip (map dec [0..<length xs]) xs
      | JStr cs \<Rightarrow> zip (map dec [0..<length cs]) (map (\<lambda>c. JStr [c]) cs)
      | _ \<Rightarrow> [])"

text \<open>\<^verbatim>\<open>POST /api/tables\<close>\<close>

definition post_tables ::
  "(json \<Rightarrow> error + insert_table) \<Rightarrow> env \<Rightarrow> server \<Rightarrow> user \<Rightarrow> request \<Rightarrow> response \<times> server" where
  "post_tables insertTableSchema_parse e srv req_user req =
     (case insertTableSchema_parse
             (JObj (spread (body req) @ [(''createdBy'', JStr (uid req_user))])) of
        Inl err \<Rightarrow> (\<lparr>status = 400, payload = Json_error err\<rparr>, srv)
      | Inr data \<Rightarrow>
          (case createTable (uuidOf e) srv data (uuid e 0) (now e) of
             Inl err \<Rightarrow> (\<lparr>status = 400, payload = Json_error err\<rparr>, srv)
           | Inr (table, srv1) \<Rightarrow>
               (let srv2 = auditLog e 1 srv1 (Some (uid req_user)) ''CREATE_TABLE''
                             ''/api/tables'' ''POST'' (Some [(''tableId'', t_id table)]) (ip req)
                in (\<lparr>status = 201, payload = Json_table table\<rparr>, srv2))))"

definition route_post_tables ::
  "(json \<Rightarrow> error + insert_table) \<Rightarrow> env \<Rightarrow> server \<Rightarrow> session \<Rightarrow> request \<Rightarrow> response \<times> server" where
  "route_post_tables insertTableSchema_parse e srv sess req =
     (case middleware PostTables srv sess of
        Inl res \<Rightarrow> (res, srv)
      | Inr u \<Rightarrow> post_tables insertTableSchema_parse e srv u req)"

text \<open>\<^verbatim>\<open>DELETE /api/tables/:id\<close>\<close>

definition delete_table :: "env \<Rightarrow> server \<Rightarrow> user \<Rightarrow> request \<Rightarrow> response \<times> server" where
  "delete_table e srv req_user req =
     (case deleteTable (uuidOf e) srv (params_id req) of
        Inl err \<Rightarrow> (\<lparr>status = 500, payload = Json_error err\<rparr>, srv)
      | Inr srv1 \<Rightarrow>
          (let srv2 = auditLog e 0 srv1 (Some (uid req_user)) ''DELETE_TABLE''
                        (''/api/tables/'' @ params_id req) ''DELETE''
                        (Some [(''tableId'', params_id req)]) (ip req)
           in (\<lparr>status = 204, payload = Empty\<rparr>, srv2)))"

definition route_delete_table :: "env \<Rightarrow> server \<Rightarrow> session \<Rightarrow> request \<Rightarrow> response \<times> server" where
  "route_delete_table e srv sess req =
     (case middleware DeleteTable srv sess of
        Inl res \<Rightarrow> (res, srv)
      | Inr u \<Rightarrow> delete_table e srv u req)"

text \<open>
  \<^verbatim>\<open>POST /api/images/upload\<close>. \<open>visionResponse\<close> is the answer of the vision service for
  an image: \<open>None\<close> when the call throws, otherwise the \<^verbatim>\<open>content\<close> of the first choice,
  which may be absent. The text the pattern \<^verbatim>\<open>/\{[\s\S]*\}/\<close> matches runs from the first
  opening brace to the last closing brace after it.
\<close>

definition json_candidate :: "string \<Rightarrow> string option" where
  "json_candidate content =
     (let from_brace = dropWhile (\<lambda>c. c \<noteq> CHR ''{'') content
      in if CHR ''}'' \<in> set from_brace
         then Some (rev (dropWhile (\<lambda>c. c \<noteq> CHR ''}'') (rev from_brace)))
         else None)"

text \<open>The extracted data: \<^verbatim>\<open>JSON.parse\<close> (the \<open>jsonParse\<close> of the environment, \<open>None\<close>
  when it throws) of the matched text, or the empty object when nothing matches or the
  parse throws. A text that begins with a brace parses to an
  object or not at all.\<close>

definition extractData :: "(string \<Rightarrow> json option) \<Rightarrow> string option \<Rightarrow> json" where
  "extractData parse content =
     (if falsy content then JObj []
      else
        (case content of
           None \<Rightarrow> JObj []
         | Some c \<Rightarrow>
             (case json_candidate c of
                None \<Rightarrow> JObj []
              | Some m \<Rightarrow>
                  (case parse m of
                     Some (JObj kvs) \<Rightarrow> JObj kvs
                   | _ \<Rightarrow> JObj []))))"

text \<open>JavaScript's truth of a JSON value, and \<^verbatim>\<open>extractedData.confidence || 0.8\<close>.\<close>

fun truthy :: "json \<Rightarrow> bool" where
  "truthy JNull = False"
| "truthy (JBool b) = b"
| "truthy (JNum m k) = (m \<noteq> 0)"
| "truthy (JStr s) = (s \<noteq> [])"
| "truthy (JArr xs) = True"
| "truthy (JObj kvs) = True"

definition confidence :: "json \<Rightarrow> json" where
  "confidence extractedData =
     (case extractedData of
        JObj kvs \<Rightarrow>
          (case get_field kvs ''confidence'' of
             Some v \<Rightarrow> if truthy v then v else JNum 8 1
           | None \<Rightarrow> JNum 8 1)
      | _ \<Rightarrow> JNum 8 1)"

definition images_upload ::
  "env \<Rightarrow> server \<Rightarrow> user \<Rightarrow> uploaded_file option \<Rightarrow> request \<Rightarrow> response \<times> server" where
  "images_upload e srv req_user req_file req =
     (case req_file of
        None \<Rightarrow> (\<lparr>status = 400, payload = Json_message ''No image file provided''\<rparr>, srv)
      | Some f \<Rightarrow>
          (let imageUrl = ''data:'' @ f_mimetype f @ '';base64,'' @ f_base64 f
           in case visionResponse e imageUrl of
                None \<Rightarrow> (\<lparr>status = 500, payload = Json_error VisionError\<rparr>, srv)
              | Some content \<Rightarrow>
                  (let extractedData = extractData (jsonParse e) content
                   in case createCapturedImage srv \<lparr>
                             ic_url = imageUrl,
                             ic_filename = f_originalname f,
                             ic_metadata = JObj [(''size'', JNum (int (f_size f)) 0),
                                                 (''mimetype'', JStr (f_mimetype f))],
                             ic_ocrText = or_null content,
                             ic_processedData = extractedData,
                             ic_processingStatus = ''completed'',
                             ic_uploadedBy = uid req_user\<rparr> (uuid e 0) (now e) of
                        Inl err \<Rightarrow> (\<lparr>status = 500, payload = Json_error err\<rparr>, srv)
                      | Inr (capturedImage, srv1) \<Rightarrow>
                          (let srv2 = auditLog e 1 srv1 (Some (uid req_user)) ''UPLOAD_IMAGE''
                                        ''/api/images/upload'' ''POST''
                                        (Some [(''imageId'', c_id capturedImage)]) (ip req)
                           in (\<lparr>status = 200,
                                payload = Json_upload (c_id capturedImage) extractedData
                                            (confidence extractedData)\<rparr>, srv2)))))"

text \<open>
  The route runs \<^verbatim>\<open>isAuthenticated\<close>, then multer's \<^verbatim>\<open>upload.single("image")\<close>, then the
  handler. \<open>multer\<close> is what multer makes of the request: an error, which the
  application's error handler answers with 500, or \<^verbatim>\<open>req.file\<close>.
\<close>

definition route_images_upload ::
  "env \<Rightarrow> server \<Rightarrow> session \<Rightarrow> error + uploaded_file option \<Rightarrow> request \<Rightarrow> response \<times> server" where
  "route_images_upload e srv sess multer req =
     (case middleware PostImagesUpload srv sess of
        Inl res \<Rightarrow> (res, srv)
      | Inr u \<Rightarrow>
          (case multer of
             Inl err \<Rightarrow> (\<lparr>status = 500, payload = Json_error err\<rparr>, srv)
           | Inr req_file \<Rightarrow> images_upload e srv u req_file req))"

text \<open>\<^verbatim>\<open>PATCH /api/users/:id/role\<close>\<close>

definition patch_user_role :: "env \<Rightarrow> server \<Rightarrow> user \<Rightarrow> request \<Rightarrow> response \<times> server" where
  "patch_user_role e srv req_user req =
     (case updateUserRoleSchema_parse (body req) of
        Inl err \<Rightarrow> (\<lparr>status = 400, payload = Json_error err\<rparr>, srv)
      | Inr data_role \<Rightarrow>
          (if data_role = Super_admin \<and> role req_user \<noteq> Super_admin
           then (\<lparr>status = 403,
                  payload = Json_message ''Only super admins can assign super admin role''\<rparr>, srv)
           else
             (case updateUserRole srv (params_id req) data_role (now e) of
                Inl err \<Rightarrow> (\<lparr>status = 400, payload = Json_error err\<rparr>, srv)
              | Inr (u, srv1) \<Rightarrow>
                  (let srv2 = auditLog e 0 srv1 (Some (uid req_user)) ''UPDATE_USER_ROLE''
                                (''/api/users/'' @ params_id req @ ''/role'') ''PATCH''
                                (Some [(''userId'', params_id req), (''newRole'', role_name data_role)])
                                (ip req)
                   in (\<lparr>status = 200, payload = Json_user u\<rparr>, srv2)))))"

definition route_patch_user_role :: "env \<Rightarrow> server \<Rightarrow> session \<Rightarrow> request \<Rightarrow> response \<times> server" where
  "route_patch_user_role e srv sess req =
     (case middleware PatchUserRole srv sess of
        Inl res \<Rightarrow> (res, srv)
      | Inr u \<Rightarrow> patch_user_role e srv u req)"

section \<open>The login callback (server/app.ts)\<close>

text \<open>The calls the handler makes into the OIDC client (\<^verbatim>\<open>discovery\<close>,
  \<^verbatim>\<open>authorizationCodeGrant\<close>, \<^verbatim>\<open>fetchUserInfo\<close>), in order, each with whether it returned
  (\<open>True\<close>) or threw (\<open>False\<close>). The list is the record of what a request attempted; the
  handler itself does not read it.\<close>

datatype idp_call = Discovery bool | TokenExchange bool | UserInfo bool

text \<open>\<^verbatim>\<open>getOIDCConfig\<close>: the cached configuration, or one discovery whose result is cached.\<close>

definition getOIDCConfig :: "env \<Rightarrow> server \<Rightarrow> (error + configuration) \<times> server \<times> idp_call list" where
  "getOIDCConfig e srv =
     (case oidcConfig srv of
        Some c \<Rightarrow> (Inr c, srv, [])
      | None \<Rightarrow>
          (case discovery e of
             None \<Rightarrow> (Inl ConfigurationError, srv, [Discovery False])
           | Some c \<Rightarrow> (Inr c, srv\<lparr>oidcConfig := Some c\<rparr>, [Discovery True])))"

text \<open>
  \<^verbatim>\<open>authorizationCodeGrant\<close> belongs to the openid-client library, not to the repository.
  The model follows its contract as the specification states it: it rejects a callback
  whose \<^verbatim>\<open>state\<close> parameter differs from \<^verbatim>\<open>expectedState\<close>, and otherwise exchanges the
  code, with the PKCE verifier, at the provider's token endpoint; the provider's answer
  is \<open>tokenResponse\<close>.
\<close>

definition authorizationCodeGrant ::
  "env \<Rightarrow> configuration \<Rightarrow> callback_query \<Rightarrow> string \<Rightarrow> string \<Rightarrow> error + tokens" where
  "authorizationCodeGrant e config callbackUrl pkceCodeVerifier expectedState =
     (if q_state callbackUrl \<noteq> Some expectedState
      then Inl (AuthenticationFailed ''unexpected state'')
      else
        (case tokenResponse e config callbackUrl pkceCodeVerifier of
           None \<Rightarrow> Inl (AuthenticationFailed ''token exchange failed'')
         | Some t \<Rightarrow> Inr t))"

text \<open>
  \<^verbatim>\<open>fetchUserInfo(config, accessToken, expectedSubject)\<close> of the same library: it asks the
  provider's userinfo endpoint, whose answer is \<open>userinfoResponse\<close>, and throws when the
  request fails or when the \<^verbatim>\<open>sub\<close> of the answer is not \<^verbatim>\<open>expectedSubject\<close>. The handler
  passes \<^verbatim>\<open>tokens.token_type\<close> as the third argument.
\<close>

definition fetchUserInfo :: "env \<Rightarrow> configuration \<Rightarrow> string \<Rightarrow> string \<Rightarrow> error + userinfo" where
  "fetchUserInfo e config accessToken expectedSubject =
     (case userinfoResponse e config accessToken of
        None \<Rightarrow> Inl (AuthenticationFailed ''userinfo request failed'')
      | Some i \<Rightarrow>
          (if sub i \<noteq> expectedSubject
           then Inl (AuthenticationFailed ''unexpected sub claim value'')
           else Inr i))"

record callback_result =
  cb_response :: response
  cb_server :: server
  cb_session :: session
  cb_calls :: "idp_call list"

text \<open>\<^verbatim>\<open>GET /api/auth/callback\<close>. Every exception inside the \<^verbatim>\<open>try\<close> ends in the one
  \<^verbatim>\<open>catch\<close>, which answers 500.\<close>

definition callback :: "env \<Rightarrow> server \<Rightarrow> session \<Rightarrow> callback_query \<Rightarrow> callback_result" where
  "callback e srv sess url =
     (let failed = \<lparr>status = 500, payload = Send ''Authentication failed''\<rparr>
      in case getOIDCConfig e srv of
        (Inl err, srv1, cs) \<Rightarrow>
          \<lparr>cb_response = failed, cb_server = srv1, cb_session = sess, cb_calls = cs\<rparr>
      | (Inr config, srv1, cs) \<Rightarrow>
          (case (codeVerifier sess, state sess) of
             (Some cv, Some st) \<Rightarrow>
               (if cv = [] \<or> st = []
                then \<lparr>cb_response = \<lparr>status = 400, payload = Send ''Invalid session''\<rparr>,
                      cb_server = srv1, cb_session = sess, cb_calls = cs\<rparr>
                else
                  (case authorizationCodeGrant e config url cv st of
                     Inl err \<Rightarrow>
                       \<lparr>cb_response = failed, cb_server = srv1, cb_session = sess,
                        cb_calls = cs @ [TokenExchange False]\<rparr>
                   | Inr tks \<Rightarrow>
                       (case fetchUserInfo e config (access_token tks) (token_type tks) of
                          Inl err \<Rightarrow>
                            \<lparr>cb_response = failed, cb_server = srv1, cb_session = sess,
                             cb_calls = cs @ [TokenExchange True, UserInfo False]\<rparr>
                        | Inr info \<Rightarrow>
                            (let (u, srv2) = upsertUser srv1 \<lparr>
                                   up_id = sub info,
                                   up_email = or_null (ui_email info),
                                   up_firstName = or_null (given_name info),
                                   up_lastName = or_null (family_name info),
                                   up_profileImageUrl = or_null (picture info)\<rparr> (now e)
                             in \<lparr>cb_response = \<lparr>status = 302, payload = Redirect ''/''\<rparr>,
                                 cb_server = srv2,
                                 cb_session = sess\<lparr>userId := Some (uid u),
                                                    codeVerifier := None, state := None\<rparr>,
                                 cb_calls = cs @ [TokenExchange True, UserInfo True]\<rparr>))))
           | _ \<Rightarrow>
               \<lparr>cb_response = \<lparr>status = 400, payload = Send ''Invalid session''\<rparr>,
                cb_server = srv1, cb_session = sess, cb_calls = cs\<rparr>))"

section \<open>Repeated calls and example data\<close>

text \<open>A sequence of \<^verbatim>\<open>upsertUser\<close> calls, each with its argument and the time of the call,
  on either storage.\<close>

fun upsertUser_repeat :: "server \<Rightarrow> (upsert_user \<times> date) list \<Rightarrow> server" where
  "upsertUser_repeat srv [] = srv"
| "upsertUser_repeat srv ((u, t) # calls) = upsertUser_repeat (snd (upsertUser srv u t)) calls"

fun upsertUser_mem_repeat ::
  "(string \<rightharpoonup> user) \<Rightarrow> (upsert_user \<times> date) list \<Rightarrow> (string \<rightharpoonup> user)" where
  "upsertUser_mem_repeat m [] = m"
| "upsertUser_mem_repeat m ((u, t) # calls) =
     upsertUser_mem_repeat (snd (upsertUser_mem m u t)) calls"

text \<open>The canonical text of a \<^verbatim>\<open>uuid\<close>: 8, 4, 4, 4 and 12 lower-case hexadecimal digits,
  joined by hyphens. Every such text is a \<^verbatim>\<open>uuid\<close> for the database and for the schemas,
  and is its own canonical text.\<close>

definition lower_hex :: "char \<Rightarrow> bool" where
  "lower_hex c = (c \<in> set ''0123456789abcdef'')"

definition canonical_uuid :: "string \<Rightarrow> bool" where
  "canonical_uuid s =
     (map (\<lambda>c. if lower_hex c then CHR ''0'' else c) s = ''00000000-0000-0000-0000-000000000000'')"

text \<open>A store with a super admin, an admin and a viewer, one warehouse, one table and three
  audit entries, and the requests and environments the examples use.\<close>

definition root_user :: user where
  "root_user = \<lparr>uid = ''root-1'', email = Some ''root@example.org'', firstName = Some ''Rosa'',
     lastName = None, profileImageUrl = None, role = Super_admin, createdAt = 10, updatedAt = 10\<rparr>"

definition admin_user :: user where
  "admin_user = \<lparr>uid = ''admin-1'', email = Some ''admin@example.org'', firstName = Some ''Ada'',
     lastName = None, profileImageUrl = None, role = Admin, createdAt = 20, updatedAt = 25\<rparr>"

definition viewer_user :: user where
  "viewer_user = \<lparr>uid = ''viewer-1'', email = None, firstName = Some ''Vic'',
     lastName = Some ''Vu'', profileImageUrl = None, role = Viewer, createdAt = 30, updatedAt = 30\<rparr>"

definition log_at :: "string \<Rightarrow> date \<Rightarrow> audit_log" where
  "log_at i t = \<lparr>log_id = i, log_userId = Some ''admin-1'', action = ''CREATE_TABLE'',
     endpoint = ''/api/tables'', http_method = ''POST'', metadata = [], ipAddress = None,
     timestamp = t\<rparr>"

definition example_server :: server where
  "example_server = \<lparr>
     oidcConfig = None,
     users = [''root-1'' \<mapsto> root_user, ''admin-1'' \<mapsto> admin_user, ''viewer-1'' \<mapsto> viewer_user],
     warehouses = [\<lparr>w_id = ''11111111-1111-4111-8111-111111111111'', w_name = ''Main'',
                    w_location = None, w_description = None,
                    w_capacity = 100, w_createdAt = 5, w_updatedAt = 5\<rparr>],
     inventoryItems = [],
     productHistory = [],
     tables = [\<lparr>t_id = ''22222222-2222-4222-8222-222222222222'', t_name = ''Stock'',
                t_description = None, t_createdBy = Some ''admin-1'', t_createdAt = 40\<rparr>],
     tableRows = [\<lparr>r_id = ''33333333-3333-4333-8333-333333333333'',
                   r_tableId = ''22222222-2222-4222-8222-222222222222'', r_createdAt = 41\<rparr>],
     capturedImages = [],
     auditLogs = [log_at ''44444444-4444-4444-8444-444444444441'' 1,
                  log_at ''44444444-4444-4444-8444-444444444442'' 2,
                  log_at ''44444444-4444-4444-8444-444444444443'' 3]\<rparr>"

text \<open>In the example environment the provider names the subject \<^verbatim>\<open>bearer\<close>, which is also
  the type of the token it issues.\<close>

definition example_env :: env where
  "example_env = \<lparr>
     discovery = Some ''https://replit.com'',
     tokenResponse = (\<lambda>c q v. if q_code q = Some ''code-1'' \<and> v = ''verifier-1''
                               then Some \<lparr>access_token = ''at-1'', token_type = ''bearer''\<rparr>
                               else None),
     userinfoResponse = (\<lambda>c a. if a = ''at-1''
                               then Some \<lparr>sub = ''bearer'', ui_email = Some ''new@example.org'',
                                          given_name = Some ''Nia'', family_name = None,
                                          picture = Some []\<rparr>
                               else None),
     visionResponse = (\<lambda>u. Some None),
     jsonParse = (\<lambda>t. None),
     auditInsertFails = False,
     now = 1000,
     uuid = (\<lambda>k. if k = 0 then ''aaaaaaaa-aaaa-4aaa-8aaa-aaaaaaaaaaa0''
                 else if k = 1 then ''aaaaaaaa-aaaa-4aaa-8aaa-aaaaaaaaaaa1''
                 else ''aaaaaaaa-aaaa-4aaa-8aaa-aaaaaaaaaaa2''),
     uuidOf = (\<lambda>s. if canonical_uuid s then Some s else None)\<rparr>"

definition failing_audit_env :: env where
  "failing_audit_env = example_env\<lparr>auditInsertFails := True\<rparr>"

definition idp_down :: env where
  "idp_down = example_env\<lparr>discovery := None\<rparr>"

definition userinfo_down :: env where
  "userinfo_down = example_env\<lparr>userinfoResponse := (\<lambda>c a. None)\<rparr>"

definition session_of :: "string \<Rightarrow> session" where
  "session_of i = \<lparr>userId = Some i, codeVerifier = None, state = None\<rparr>"

definition anonymous :: session where
  "anonymous = \<lparr>userId = None, codeVerifier = None, state = None\<rparr>"

definition pending :: session where
  "pending = \<lparr>userId = None, codeVerifier = Some ''verifier-1'', state = Some ''state-1''\<rparr>"

definition good_query :: callback_query where
  "good_query = \<lparr>q_code = Some ''code-1'', q_state = Some ''state-1''\<rparr>"

definition forged_query :: callback_query where
  "forged_query = \<lparr>q_code = Some ''code-1'', q_state = Some ''state-X''\<rparr>"

definition role_request :: "string \<Rightarrow> string \<Rightarrow> request" where
  "role_request target r =
     \<lparr>params_id = target, body = JObj [(''role'', JStr r)], ip = Some ''10.0.0.7''\<rparr>"



definition item_request :: request where
  "item_request = \<lparr>params_id = [],
     body = JObj [(''warehouseId'', JStr ''11111111-1111-4111-8111-111111111111''),
                  (''name'', JStr ''Bolt''), (''sku'', JStr ''B-1''), (''quantity'', JNum 7 0),
                  (''expirationDate'', JNull)],
     ip = None\<rparr>"

definition created_item :: inventory_item where
  "created_item = \<lparr>i_id = ''aaaaaaaa-aaaa-4aaa-8aaa-aaaaaaaaaaa0'',
     i_warehouseId = ''11111111-1111-4111-8111-111111111111'', i_name = ''Bolt'', i_sku = ''B-1'',
     i_category = None, i_quantity = 7, i_unit = ''pcs'', i_batchNumber = None,
     i_expirationDate = None, i_location = None, i_description = None,
     i_createdAt = 1000, i_updatedAt = 1000\<rparr>"

definition profile_refresh :: upsert_user where
  "profile_refresh = \<lparr>up_id = ''admin-1'', up_email = Some ''ada@example.org'',
     up_firstName = Some ''Ada'', up_lastName = Some ''Lovelace'', up_profileImageUrl = None\<rparr>"

definition newcomer :: upsert_user where
  "newcomer = \<lparr>up_id = ''new-1'', up_email = Some ''new@example.org'',
     up_firstName = Some ''Nia'', up_lastName = None, up_profileImageUrl = None\<rparr>"

text \<open>
  Instances of the schema parameters for the examples. \<open>optional_string\<close> reads a key
  declared \<^verbatim>\<open>z.string().optional()\<close>. \<open>example_table_parse\<close> reads \<^verbatim>\<open>name\<close>, \<^verbatim>\<open>description\<close> and
  \<^verbatim>\<open>createdBy\<close> as \<^verbatim>\<open>insertTableSchema\<close> declares them, and \<open>example_item_parse\<close> reads
  \<^verbatim>\<open>warehouseId\<close>, \<^verbatim>\<open>name\<close>, \<^verbatim>\<open>sku\<close>, \<^verbatim>\<open>quantity\<close> and the optional texts as
  \<^verbatim>\<open>insertInventoryItemSchema\<close> declares them, with a \<^verbatim>\<open>null\<close> \<^verbatim>\<open>expirationDate\<close>. Both
  refuse a body that carries \<^verbatim>\<open>id\<close>, \<^verbatim>\<open>createdAt\<close> or \<^verbatim>\<open>updatedAt\<close>, or a date text, which the
  examples do not use.
\<close>

definition optional_string :: "(string \<times> json) list \<Rightarrow> string \<Rightarrow> error + string option" where
  "optional_string kvs k =
     (case get_field kvs k of
        None \<Rightarrow> Inr None
      | Some (JStr s) \<Rightarrow> Inr (Some s)
      | _ \<Rightarrow> Inl ZodError)"

definition example_table_parse :: "json \<Rightarrow> error + insert_table" where
  "example_table_parse b =
     (case b of
        JObj kvs \<Rightarrow>
          (case (get_field kvs ''name'', optional_string kvs ''description'',
                 optional_string kvs ''createdBy'', get_field kvs ''id'',
                 get_field kvs ''createdAt'') of
             (Some (JStr n), Inr d, Inr c, None, None) \<Rightarrow>
               (if n = [] then Inl ZodError
                else Inr \<lparr>it_id = None, it_name = n, it_description = d, it_createdBy = c,
                          it_createdAt = None\<rparr>)
           | _ \<Rightarrow> Inl ZodError)
      | _ \<Rightarrow> Inl ZodError)"

definition example_item_parse :: "json \<Rightarrow> error + insert_inventory_item" where
  "example_item_parse b =
     (case b of
        JObj kvs \<Rightarrow>
          (case (get_field kvs ''warehouseId'', get_field kvs ''name'', get_field kvs ''sku'',
                 get_field kvs ''expirationDate'') of
             (Some (JStr w), Some (JStr n), Some (JStr s), Some JNull) \<Rightarrow>
               (case (optional_string kvs ''category'', optional_string kvs ''unit'',
                      optional_string kvs ''batchNumber'', optional_string kvs ''location'',
                      optional_string kvs ''description'') of
                  (Inr c, Inr u, Inr bn, Inr l, Inr d) \<Rightarrow>
                    (case (case get_field kvs ''quantity'' of
                             None \<Rightarrow> Some 0
                           | Some (JNum m k) \<Rightarrow> if k = 0 \<and> 0 \<le> m then Some m else None
                           | _ \<Rightarrow> None) of
                       Some q \<Rightarrow>
                         (if canonical_uuid w \<and> n \<noteq> [] \<and> s \<noteq> [] \<and>
                             get_field kvs ''id'' = None \<and> get_field kvs ''createdAt'' = None \<and>
                             get_field kvs ''updatedAt'' = None
                          then Inr \<lparr>ii_id = None, ii_warehouseId = w, ii_name = n, ii_sku = s,
                                    ii_category = c, ii_quantity = Some q, ii_unit = u,
                                    ii_batchNumber = bn, ii_expirationDate = None,
                                    ii_location = l, ii_description = d,
                                    ii_createdAt = None, ii_updatedAt = None\<rparr>
                          else Inl ZodError)
                     | None \<Rightarrow> Inl ZodError)
                | _ \<Rightarrow> Inl ZodError)
           | _ \<Rightarrow> Inl ZodError)
      | _ \<Rightarrow> Inl ZodError)"

section \<open>Basic facts\<close>

lemmas fixture_defs =
  root_user_def admin_user_def viewer_user_def log_at_def example_server_def example_env_def
  session_of_def role_request_def

lemmas parse_defs = updateUserRoleSchema_parse_def get_field_def userRoles_def role_of_name_def

lemmas auth_defs = isAuthenticated_def falsy_def getUserById_def

lemma updateUserRoleSchema_accepts:
  "updateUserRoleSchema_parse b = Inr r \<longleftrightarrow>
     (\<exists>kvs. b = JObj kvs \<and> get_field kvs ''role'' = Some (JStr (role_name r)))"
  by (cases r)
     (auto simp: updateUserRoleSchema_parse_def userRoles_def role_of_name_def
       split: json.splits option.splits if_splits)

lemma auditLog_eq:
  "auditLog e k srv a act ep m d i =
     (if auditInsertFails e then srv
      else srv\<lparr>auditLogs := auditLogs srv @
             [\<lparr>log_id = uuid e k, log_userId = or_null a, action = act, endpoint = ep,
               http_method = m, metadata = (case d of Some x \<Rightarrow> x | None \<Rightarrow> []),
               ipAddress = or_null i, timestamp = now e\<rparr>]\<rparr>)"
  by (simp add: auditLog_def createAuditLog_def Let_def)

lemma auditLog_users: "users (auditLog e k srv a act ep m d i) = users srv"
  by (simp add: auditLog_eq)

lemma auditLog_fails: "auditInsertFails e \<Longrightarrow> auditLog e k srv a act ep m d i = srv"
  by (simp add: auditLog_def createAuditLog_def)

lemma middleware_patch_user_role:
  assumes "isAuthenticated srv sess = Inr actor"
    and "role actor = Admin \<or> role actor = Super_admin"
  shows "middleware PatchUserRole srv sess = Inr actor"
  using assms by (auto simp: middleware_def requireRole_def)



section \<open>Role assignment\<close>

lemma patch_user_role_denied:
  assumes "updateUserRoleSchema_parse (body req) = Inr Super_admin"
    and "role actor \<noteq> Super_admin"
  shows "patch_user_role e srv actor req =
           (\<lparr>status = 403,
             payload = Json_message ''Only super admins can assign super admin role''\<rparr>, srv)"
  using assms by (simp add: patch_user_role_def)

lemma patch_user_role_updates:
  assumes "updateUserRoleSchema_parse (body req) = Inr r"
    and "role actor = Super_admin \<or> r \<noteq> Super_admin"
    and "users srv (params_id req) = Some target"
  shows "fst (patch_user_role e srv actor req) =
           \<lparr>status = 200, payload = Json_user (target\<lparr>role := r, updatedAt := now e\<rparr>)\<rparr>"
    and "users (snd (patch_user_role e srv actor req)) =
           (users srv)(params_id req \<mapsto> target\<lparr>role := r, updatedAt := now e\<rparr>)"
  using assms by (auto simp: patch_user_role_def updateUserRole_def Let_def auditLog_users)

lemma patch_user_role_missing:
  assumes "updateUserRoleSchema_parse (body req) = Inr r"
    and "role actor = Super_admin \<or> r \<noteq> Super_admin"
    and "users srv (params_id req) = None"
  shows "patch_user_role e srv actor req =
           (\<lparr>status = 400, payload = Json_error (Error ''User not found'')\<rparr>, srv)"
  using assms by (auto simp: patch_user_role_def updateUserRole_def)

text \<open>
  Claim C1. A request \<^verbatim>\<open>PATCH /api/users/:id/role\<close> comes from an authenticated actor
  whose role is admin or super admin, and its body carries the role \<open>r\<close>. When \<open>r\<close> is
  super admin and the actor is not a super admin, the answer is 403 and the store is as
  before. When the actor is a super admin, or \<open>r\<close> is one of the other three roles, the
  request goes through: the answer is 200 with the target user, whose stored role is now
  \<open>r\<close>.
\<close>

theorem role_assignment_guard:
  assumes "isAuthenticated srv sess = Inr actor"
    and "role actor = Admin \<or> role actor = Super_admin"
    and "updateUserRoleSchema_parse (body req) = Inr r"
  shows "(r = Super_admin \<and> role actor \<noteq> Super_admin \<longrightarrow>
            status (fst (route_patch_user_role e srv sess req)) = 403 \<and>
            snd (route_patch_user_role e srv sess req) = srv) \<and>
         (role actor = Super_admin \<or> r \<noteq> Super_admin \<longrightarrow>
            (\<forall>target. users srv (params_id req) = Some target \<longrightarrow>
               fst (route_patch_user_role e srv sess req) =
                 \<lparr>status = 200, payload = Json_user (target\<lparr>role := r, updatedAt := now e\<rparr>)\<rparr> \<and>
               users (snd (route_patch_user_role e srv sess req)) =
                 (users srv)(params_id req \<mapsto> target\<lparr>role := r, updatedAt := now e\<rparr>)))"
proof -
  have mw: "route_patch_user_role e srv sess req = patch_user_role e srv actor req"
    using middleware_patch_user_role [OF assms(1,2)] by (simp add: route_patch_user_role_def)
  show ?thesis
    unfolding mw
    using assms(3) patch_user_role_denied [of req actor e srv]
      patch_user_role_updates [of req r actor srv _ e]
    by auto
qed

theorem role_assignment_guard_witness:
  "isAuthenticated example_server (session_of ''admin-1'') = Inr admin_user \<and>
   isAuthenticated example_server (session_of ''root-1'') = Inr root_user \<and>
   updateUserRoleSchema_parse (body (role_request ''viewer-1'' ''super_admin'')) = Inr Super_admin \<and>
   status (fst (route_patch_user_role example_env example_server (session_of ''admin-1'')
                  (role_request ''viewer-1'' ''super_admin''))) = 403 \<and>
   snd (route_patch_user_role example_env example_server (session_of ''admin-1'')
          (role_request ''viewer-1'' ''super_admin'')) = example_server \<and>
   fst (route_patch_user_role example_env example_server (session_of ''root-1'')
          (role_request ''viewer-1'' ''super_admin'')) =
     \<lparr>status = 200, payload = Json_user (viewer_user\<lparr>role := Super_admin, updatedAt := 1000\<rparr>)\<rparr>"
proof -
  have a: "isAuthenticated example_server (session_of ''admin-1'') = Inr admin_user"
    by (simp add: auth_defs fixture_defs)
  have b: "isAuthenticated example_server (session_of ''root-1'') = Inr root_user"
    by (simp add: auth_defs fixture_defs)
  have p: "updateUserRoleSchema_parse (body (role_request ''viewer-1'' ''super_admin'')) =
      Inr Super_admin"
    by (simp add: parse_defs role_request_def)
  have ra: "role admin_user = Admin \<or> role admin_user = Super_admin"
    by (simp add: admin_user_def)
  have rb: "role root_user = Admin \<or> role root_user = Super_admin"
    by (simp add: root_user_def)
  have t: "users example_server (params_id (role_request ''viewer-1'' ''super_admin'')) =
      Some viewer_user"
    by (simp add: example_server_def role_request_def)
  have n: "now example_env = 1000" by (simp add: example_env_def)
  from role_assignment_guard [OF a ra p, of example_env]
       role_assignment_guard [OF b rb p, of example_env] a b p t n
  show ?thesis by (simp add: admin_user_def root_user_def)
qed

text \<open>
  Claim C7. A role update that names a user who does not exist is to fail as not found,
  with status 404, and the new role is to be one of the four recognized values. On the
  example store an admin asks for the role of the unknown user \<^verbatim>\<open>nobody\<close> to become viewer:
  \<^verbatim>\<open>updateUserRole\<close> throws \<^verbatim>\<open>User not found\<close>, and the route answers 400 with that message,
  as it does for a role name outside the four.
\<close>

theorem role_update_missing_user_status:
  "users example_server ''nobody'' = None \<and>
   route_patch_user_role example_env example_server (session_of ''admin-1'')
     (role_request ''nobody'' ''viewer'') =
     (\<lparr>status = 400, payload = Json_error (Error ''User not found'')\<rparr>, example_server) \<and>
   route_patch_user_role example_env example_server (session_of ''admin-1'')
     (role_request ''viewer-1'' ''owner'') =
     (\<lparr>status = 400, payload = Json_error ZodError\<rparr>, example_server)"
  by (simp add: route_patch_user_role_def middleware_def requireRole_def auth_defs
      patch_user_role_def updateUserRole_def parse_defs fixture_defs)

text \<open>
  Claim C9. The guard of \<^verbatim>\<open>PATCH /api/users/:id/role\<close> looks at the role being assigned and
  never at the role the target has: an admin sets the role of any existing user, a super
  admin included, to viewer, manager or admin, and the request succeeds.
\<close>

theorem admin_demotes_super_admin:
  assumes "isAuthenticated srv sess = Inr actor"
    and "role actor = Admin"
    and "users srv (params_id req) = Some target"
    and "updateUserRoleSchema_parse (body req) = Inr r"
    and "r = Viewer \<or> r = Manager \<or> r = Admin"
  shows "fst (route_patch_user_role e srv sess req) =
           \<lparr>status = 200, payload = Json_user (target\<lparr>role := r, updatedAt := now e\<rparr>)\<rparr> \<and>
         users (snd (route_patch_user_role e srv sess req)) =
           (users srv)(params_id req \<mapsto> target\<lparr>role := r, updatedAt := now e\<rparr>)"
proof -
  have "middleware PatchUserRole srv sess = Inr actor"
    using assms(1,2) by (simp add: middleware_patch_user_role)
  then have mw: "route_patch_user_role e srv sess req = patch_user_role e srv actor req"
    by (simp add: route_patch_user_role_def)
  have g: "role actor = Super_admin \<or> r \<noteq> Super_admin"
    using assms(5) by auto
  show ?thesis
    unfolding mw using patch_user_role_updates [OF assms(4) g assms(3)] by simp
qed

theorem admin_demotes_super_admin_witness:
  "isAuthenticated example_server (session_of ''admin-1'') = Inr admin_user \<and>
   role admin_user = Admin \<and>
   users example_server ''root-1'' = Some root_user \<and>
   role root_user = Super_admin \<and>
   fst (route_patch_user_role example_env example_server (session_of ''admin-1'')
          (role_request ''root-1'' ''viewer'')) =
     \<lparr>status = 200, payload = Json_user (root_user\<lparr>role := Viewer, updatedAt := 1000\<rparr>)\<rparr>"
proof -
  have a: "isAuthenticated example_server (session_of ''admin-1'') = Inr admin_user"
    by (simp add: auth_defs fixture_defs)
  have ra: "role admin_user = Admin" by (simp add: admin_user_def)
  have t: "users example_server (params_id (role_request ''root-1'' ''viewer'')) = Some root_user"
    by (simp add: example_server_def role_request_def)
  have p: "updateUserRoleSchema_parse (body (role_request ''root-1'' ''viewer'')) = Inr Viewer"
    by (simp add: parse_defs role_request_def)
  have v: "Viewer = Viewer \<or> Viewer = Manager \<or> Viewer = Admin" by simp
  have n: "now example_env = 1000" by (simp add: example_env_def)
  have u: "users example_server ''root-1'' = Some root_user"
    by (simp add: example_server_def)
  from admin_demotes_super_admin [OF a ra t p v, of example_env] a ra u n
  show ?thesis by (simp add: root_user_def)
qed

section \<open>Upsert of a user\<close>

lemma upsertUser_existing:
  assumes "users srv (up_id u) = Some x"
  shows "upsertUser srv u t =
           (x\<lparr>email := up_email u, firstName := up_firstName u, lastName := up_lastName u,
              profileImageUrl := up_profileImageUrl u, updatedAt := t\<rparr>,
            srv\<lparr>users := (users srv)(up_id u \<mapsto>
              x\<lparr>email := up_email u, firstName := up_firstName u, lastName := up_lastName u,
                 profileImageUrl := up_profileImageUrl u, updatedAt := t\<rparr>)\<rparr>)"
  using assms by (simp add: upsertUser_def Let_def)

lemma upsertUser_absent:
  assumes "users srv (up_id u) = None"
  shows "role (fst (upsertUser srv u t)) = Viewer"
    and "users (snd (upsertUser srv u t)) (up_id u) = Some (fst (upsertUser srv u t))"
  using assms by (simp_all add: upsertUser_def Let_def)

lemma upsertUser_oidcConfig:
  "oidcConfig (snd (upsertUser srv u t)) = oidcConfig srv"
  by (simp add: upsertUser_def Let_def split: option.splits)

lemma upsertUser_step:
  assumes "users srv i = Some x"
  shows "\<exists>y. users (snd (upsertUser srv u t)) i = Some y \<and>
             role y = role x \<and> createdAt y = createdAt x \<and> uid y = uid x"
proof (cases "up_id u = i")
  case True
  then show ?thesis using assms by (simp add: upsertUser_existing)
next
  case False
  then show ?thesis using assms
    by (simp add: upsertUser_def Let_def split: option.splits)
qed

lemma upsertUser_repeat_frame:
  assumes "users srv i = Some x"
  shows "\<exists>y. users (upsertUser_repeat srv calls) i = Some y \<and>
             role y = role x \<and> createdAt y = createdAt x \<and> uid y = uid x"
  using assms
proof (induction calls arbitrary: srv x)
  case Nil
  then show ?case by simp
next
  case (Cons c calls)
  obtain u t where c: "c = (u, t)" by (cases c)
  from upsertUser_step [OF Cons.prems, of u t]
  obtain y where y: "users (snd (upsertUser srv u t)) i = Some y"
    "role y = role x" "createdAt y = createdAt x" "uid y = uid x" by blast
  from Cons.IH [OF y(1)] y(2-4) show ?case by (simp add: c)
qed

lemma upsertUser_mem_absent:
  assumes "m (up_id u) = None"
  shows "role (fst (upsertUser_mem m u t)) = Viewer"
    and "snd (upsertUser_mem m u t) (up_id u) = Some (fst (upsertUser_mem m u t))"
  using assms by (simp_all add: upsertUser_mem_def Let_def)

lemma upsertUser_mem_step:
  assumes "m i = Some x"
  shows "\<exists>y. snd (upsertUser_mem m u t) i = Some y \<and>
             role y = role x \<and> createdAt y = createdAt x"
  using assms by (auto simp: upsertUser_mem_def Let_def)

lemma upsertUser_mem_repeat_frame:
  assumes "m i = Some x"
  shows "\<exists>y. upsertUser_mem_repeat m calls i = Some y \<and>
             role y = role x \<and> createdAt y = createdAt x"
  using assms
proof (induction calls arbitrary: m x)
  case Nil
  then show ?case by simp
next
  case (Cons c calls)
  obtain u t where c: "c = (u, t)" by (cases c)
  from upsertUser_mem_step [of m i x u t, OF Cons.prems]
  obtain y where y: "snd (upsertUser_mem m u t) i = Some y"
    "role y = role x" "createdAt y = createdAt x" by blast
  from Cons.IH [of "snd (upsertUser_mem m u t)" y, OF y(1)] y(2-3)
  show ?case by (simp add: c)
qed

text \<open>
  Claim C4. \<^verbatim>\<open>upsertUser\<close> for a subject that already has a user changes the four profile
  fields and \<^verbatim>\<open>updatedAt\<close> of that user and nothing else: its role, its \<^verbatim>\<open>createdAt\<close>, the
  other users and the other tables stay, and after any sequence of upserts every user
  that existed at the start still has its role and \<^verbatim>\<open>createdAt\<close>. For a subject without a
  user the created user is a viewer. Both storages, \<^verbatim>\<open>DatabaseStorage\<close> and \<^verbatim>\<open>MemStorage\<close>,
  behave so.
\<close>

theorem upsert_keeps_role_and_createdAt:
  "(\<forall>x. users srv (up_id u) = Some x \<longrightarrow>
      fst (upsertUser srv u t) =
        x\<lparr>email := up_email u, firstName := up_firstName u, lastName := up_lastName u,
           profileImageUrl := up_profileImageUrl u, updatedAt := t\<rparr>) \<and>
   (users srv (up_id u) = None \<longrightarrow> role (fst (upsertUser srv u t)) = Viewer) \<and>
   snd (upsertUser srv u t) = srv\<lparr>users := (users srv)(up_id u \<mapsto> fst (upsertUser srv u t))\<rparr> \<and>
   (\<forall>x. users srv i = Some x \<longrightarrow>
      (\<exists>y. users (upsertUser_repeat srv calls) i = Some y \<and>
           role y = role x \<and> createdAt y = createdAt x)) \<and>
   (\<forall>x. m (up_id u) = Some x \<longrightarrow>
      fst (upsertUser_mem m u t) =
        \<lparr>uid = up_id u, email = up_email u, firstName = up_firstName u, lastName = up_lastName u,
         profileImageUrl = up_profileImageUrl u, role = role x, createdAt = createdAt x,
         updatedAt = t\<rparr>) \<and>
   (m (up_id u) = None \<longrightarrow> role (fst (upsertUser_mem m u t)) = Viewer) \<and>
   snd (upsertUser_mem m u t) = m(up_id u \<mapsto> fst (upsertUser_mem m u t)) \<and>
   (\<forall>x. m i = Some x \<longrightarrow>
      (\<exists>y. upsertUser_mem_repeat m calls i = Some y \<and>
           role y = role x \<and> createdAt y = createdAt x))"
proof -
  have db1: "\<forall>x. users srv (up_id u) = Some x \<longrightarrow>
      fst (upsertUser srv u t) =
        x\<lparr>email := up_email u, firstName := up_firstName u, lastName := up_lastName u,
           profileImageUrl := up_profileImageUrl u, updatedAt := t\<rparr>"
    by (simp add: upsertUser_existing)
  have db2: "users srv (up_id u) = None \<longrightarrow> role (fst (upsertUser srv u t)) = Viewer"
    by (simp add: upsertUser_absent)
  have db3: "snd (upsertUser srv u t) =
      srv\<lparr>users := (users srv)(up_id u \<mapsto> fst (upsertUser srv u t))\<rparr>"
    by (simp add: upsertUser_def Let_def split: option.splits)
  have db4: "\<forall>x. users srv i = Some x \<longrightarrow>
      (\<exists>y. users (upsertUser_repeat srv calls) i = Some y \<and>
           role y = role x \<and> createdAt y = createdAt x)"
    using upsertUser_repeat_frame [of srv i _ calls] by blast
  have m1: "\<forall>x. m (up_id u) = Some x \<longrightarrow>
      fst (upsertUser_mem m u t) =
        \<lparr>uid = up_id u, email = up_email u, firstName = up_firstName u, lastName = up_lastName u,
         profileImageUrl = up_profileImageUrl u, role = role x, createdAt = createdAt x,
         updatedAt = t\<rparr>"
    by (simp add: upsertUser_mem_def Let_def)
  have m2: "m (up_id u) = None \<longrightarrow> role (fst (upsertUser_mem m u t)) = Viewer"
    by (simp add: upsertUser_mem_absent)
  have m3: "snd (upsertUser_mem m u t) = m(up_id u \<mapsto> fst (upsertUser_mem m u t))"
    by (simp add: upsertUser_mem_def Let_def)
  have m4: "\<forall>x. m i = Some x \<longrightarrow>
      (\<exists>y. upsertUser_mem_repeat m calls i = Some y \<and>
           role y = role x \<and> createdAt y = createdAt x)"
    using upsertUser_mem_repeat_frame [of m i _ calls] by blast
  from db1 db2 db3 db4 m1 m2 m3 m4 show ?thesis by blast
qed

theorem upsert_keeps_role_and_createdAt_witness:
  "users example_server ''admin-1'' = Some admin_user \<and>
   role (fst (upsertUser example_server profile_refresh 2000)) = Admin \<and>
   createdAt (fst (upsertUser example_server profile_refresh 2000)) = 20 \<and>
   updatedAt (fst (upsertUser example_server profile_refresh 2000)) = 2000 \<and>
   (\<exists>y. users (upsertUser_repeat example_server
              [(profile_refresh, 2000), (profile_refresh, 3000)]) ''admin-1'' = Some y \<and>
        role y = Admin \<and> createdAt y = 20) \<and>
   users example_server ''new-1'' = None \<and>
   role (fst (upsertUser example_server newcomer 2000)) = Viewer \<and>
   role (fst (upsertUser_mem (users example_server) profile_refresh 2000)) = Admin \<and>
   (\<exists>y. upsertUser_mem_repeat (users example_server)
              [(profile_refresh, 2000), (profile_refresh, 3000)] ''admin-1'' = Some y \<and>
        role y = Admin \<and> createdAt y = 20) \<and>
   role (fst (upsertUser_mem (users example_server) newcomer 2000)) = Viewer"
proof -
  have a: "users example_server ''admin-1'' = Some admin_user"
    by (simp add: example_server_def)
  have b: "users example_server ''new-1'' = None"
    by (simp add: example_server_def)
  have a': "users example_server (up_id profile_refresh) = Some admin_user"
    by (simp add: example_server_def profile_refresh_def)
  have b': "users example_server (up_id newcomer) = None"
    by (simp add: example_server_def newcomer_def)
  have r: "role admin_user = Admin" "createdAt admin_user = 20"
    by (simp_all add: admin_user_def)
  note T = upsert_keeps_role_and_createdAt
         [of example_server profile_refresh 2000 "''admin-1''"
             "[(profile_refresh, 2000), (profile_refresh, 3000)]" "users example_server"]
  note N = upsert_keeps_role_and_createdAt
         [of example_server newcomer 2000 "''new-1''" "[]" "users example_server"]
  from T a' have c1: "fst (upsertUser example_server profile_refresh 2000) =
      admin_user\<lparr>email := up_email profile_refresh, firstName := up_firstName profile_refresh,
        lastName := up_lastName profile_refresh,
        profileImageUrl := up_profileImageUrl profile_refresh, updatedAt := 2000\<rparr>"
    by blast
  have c2: "role (fst (upsertUser example_server profile_refresh 2000)) = Admin"
    "createdAt (fst (upsertUser example_server profile_refresh 2000)) = 20"
    "updatedAt (fst (upsertUser example_server profile_refresh 2000)) = 2000"
    by (simp_all add: c1 r)
  from T a have "\<exists>y. users (upsertUser_repeat example_server
              [(profile_refresh, 2000), (profile_refresh, 3000)]) ''admin-1'' = Some y \<and>
        role y = role admin_user \<and> createdAt y = createdAt admin_user"
    by blast
  then have c3: "\<exists>y. users (upsertUser_repeat example_server
              [(profile_refresh, 2000), (profile_refresh, 3000)]) ''admin-1'' = Some y \<and>
        role y = Admin \<and> createdAt y = 20"
    by (simp only: r)
  from N b' have c4: "role (fst (upsertUser example_server newcomer 2000)) = Viewer"
    by blast
  from T a' have "fst (upsertUser_mem (users example_server) profile_refresh 2000) =
        \<lparr>uid = up_id profile_refresh, email = up_email profile_refresh,
         firstName = up_firstName profile_refresh, lastName = up_lastName profile_refresh,
         profileImageUrl = up_profileImageUrl profile_refresh, role = role admin_user,
         createdAt = createdAt admin_user, updatedAt = 2000\<rparr>"
    by blast
  then have c5: "role (fst (upsertUser_mem (users example_server) profile_refresh 2000)) = Admin"
    by (simp add: r)
  from T a have "\<exists>y. upsertUser_mem_repeat (users example_server)
              [(profile_refresh, 2000), (profile_refresh, 3000)] ''admin-1'' = Some y \<and>
        role y = role admin_user \<and> createdAt y = createdAt admin_user"
    by blast
  then have c6: "\<exists>y. upsertUser_mem_repeat (users example_server)
              [(profile_refresh, 2000), (profile_refresh, 3000)] ''admin-1'' = Some y \<and>
        role y = Admin \<and> createdAt y = 20"
    by (simp only: r)
  from N b' have c7: "role (fst (upsertUser_mem (users example_server) newcomer 2000)) = Viewer"
    by blast
  from a b c2 c3 c4 c5 c6 c7 show ?thesis by blast
qed

section \<open>The audit log\<close>

lemma post_warehouses_response:
  "fst (post_warehouses p (e\<lparr>auditInsertFails := b\<rparr>) srv u req) = fst (post_warehouses p e srv u req)"
  by (simp add: post_warehouses_def Let_def split: sum.splits prod.splits)

lemma patch_warehouse_response:
  "fst (patch_warehouse p (e\<lparr>auditInsertFails := b\<rparr>) srv u req) = fst (patch_warehouse p e srv u req)"
  by (simp add: patch_warehouse_def Let_def split: sum.splits prod.splits)

lemma delete_warehouse_response:
  "fst (delete_warehouse (e\<lparr>auditInsertFails := b\<rparr>) srv u req) = fst (delete_warehouse e srv u req)"
  by (simp add: delete_warehouse_def Let_def split: sum.splits prod.splits)

lemma post_inventory_response:
  "fst (post_inventory p (e\<lparr>auditInsertFails := b\<rparr>) srv u req) = fst (post_inventory p e srv u req)"
  by (simp add: post_inventory_def Let_def split: sum.splits prod.splits)

lemma patch_inventory_response:
  "fst (patch_inventory p (e\<lparr>auditInsertFails := b\<rparr>) srv u req) = fst (patch_inventory p e srv u req)"
  by (simp add: patch_inventory_def Let_def split: sum.splits prod.splits option.splits)

lemma delete_inventory_response:
  "fst (delete_inventory (e\<lparr>auditInsertFails := b\<rparr>) srv u req) = fst (delete_inventory e srv u req)"
  by (simp add: delete_inventory_def Let_def split: sum.splits prod.splits)

lemma post_tables_response:
  "fst (post_tables q (e\<lparr>auditInsertFails := b\<rparr>) srv u req) = fst (post_tables q e srv u req)"
  by (simp add: post_tables_def Let_def split: sum.splits prod.splits)

lemma delete_table_response:
  "fst (delete_table (e\<lparr>auditInsertFails := b\<rparr>) srv u req) = fst (delete_table e srv u req)"
  by (simp add: delete_table_def Let_def split: sum.splits prod.splits)

lemma images_upload_response:
  "fst (images_upload (e\<lparr>auditInsertFails := b\<rparr>) srv u f req) = fst (images_upload e srv u f req)"
  by (simp add: images_upload_def Let_def
      split: sum.splits prod.splits option.splits)

lemma patch_user_role_response:
  "fst (patch_user_role (e\<lparr>auditInsertFails := b\<rparr>) srv u req) = fst (patch_user_role e srv u req)"
  by (simp add: patch_user_role_def Let_def split: sum.splits prod.splits)

lemma middleware_never_201:
  "middleware rt srv sess = Inl res \<Longrightarrow> status res \<noteq> 201"
  by (auto simp: middleware_def isAuthenticated_def requireRole_def
      split: sum.splits option.splits if_splits)

lemma createInventoryItem_Inr:
  assumes "createInventoryItem rd srv data n d = Inr (item, srv1)"
  shows "srv1 = srv\<lparr>inventoryItems := inventoryItems srv @ [item]\<rparr>"
  using assms
  by (auto simp: createInventoryItem_def Let_def split: option.splits if_splits)

lemma createProductHistory_Inr:
  assumes "createProductHistory rd srv h n d = Inr (row, srv1)"
  shows "srv1 = srv\<lparr>productHistory := productHistory srv @ [row]\<rparr>"
  using assms
  by (auto simp: createProductHistory_def Let_def split: option.splits if_splits)

lemma post_inventory_created:
  assumes "status (fst (post_inventory p e srv u req)) = 201"
  shows "\<exists>item. fst (post_inventory p e srv u req) = \<lparr>status = 201, payload = Json_item item\<rparr> \<and>
           item \<in> set (inventoryItems (snd (post_inventory p e srv u req))) \<and>
           (auditInsertFails e \<longrightarrow>
              auditLogs (snd (post_inventory p e srv u req)) = auditLogs srv)"
proof (cases "p (body req)")
  case (Inl err)
  with assms show ?thesis by (simp add: post_inventory_def)
next
  case (Inr data)
  show ?thesis
  proof (cases "createInventoryItem (uuidOf e) srv data (uuid e 0) (now e)")
    case (Inl err)
    with assms Inr show ?thesis by (simp add: post_inventory_def)
  next
    case ci: (Inr r)
    obtain item srv1 where r: "r = (item, srv1)" by (cases r)
    note s1 = createInventoryItem_Inr [OF ci [unfolded r]]
    let ?h = "\<lparr>ih_inventoryItemId = i_id item, ih_actionType = ''in'',
               ih_quantityChange = i_quantity item, ih_previousQuantity = 0,
               ih_newQuantity = i_quantity item, ih_userId = or_null (Some (uid u)),
               ih_notes = Some ''Initial inventory''\<rparr>"
    show ?thesis
    proof (cases "createProductHistory (uuidOf e) srv1 ?h (uuid e 1) (now e)")
      case (Inl err)
      with assms Inr ci r show ?thesis by (simp add: post_inventory_def)
    next
      case ch: (Inr r2)
      obtain row srv2 where r2: "r2 = (row, srv2)" by (cases r2)
      note s2 = createProductHistory_Inr [OF ch [unfolded r2]]
      have v: "post_inventory p e srv u req =
          (\<lparr>status = 201, payload = Json_item item\<rparr>,
           auditLog e 2 srv2 (Some (uid u)) ''CREATE_INVENTORY'' ''/api/inventory'' ''POST''
             (Some [(''itemId'', i_id item), (''sku'', i_sku item)]) (ip req))"
        using Inr ci r ch r2 by (simp add: post_inventory_def Let_def)
      show ?thesis
        by (simp add: v auditLog_eq s2 s1)
    qed
  qed
qed

lemma route_post_inventory_created:
  assumes "status (fst (route_post_inventory p e srv sess req)) = 201"
  shows "\<exists>item. fst (route_post_inventory p e srv sess req) =
                  \<lparr>status = 201, payload = Json_item item\<rparr> \<and>
           item \<in> set (inventoryItems (snd (route_post_inventory p e srv sess req))) \<and>
           (auditInsertFails e \<longrightarrow>
              auditLogs (snd (route_post_inventory p e srv sess req)) = auditLogs srv)"
proof (cases "middleware PostInventory srv sess")
  case (Inl res)
  then have "fst (route_post_inventory p e srv sess req) = res"
    by (simp add: route_post_inventory_def)
  with assms have "status res = 201" by simp
  with middleware_never_201 [OF Inl] show ?thesis by simp
next
  case (Inr u)
  then have r: "route_post_inventory p e srv sess req = post_inventory p e srv u req"
    by (simp add: route_post_inventory_def)
  from assms post_inventory_created [of p e srv u req]
  show ?thesis unfolding r by simp
qed

text \<open>
  Claim C5. A failing append to the audit log never changes the response of a mutating
  route. \<^verbatim>\<open>auditLog\<close> catches the error of \<^verbatim>\<open>createAuditLog\<close> and returns, leaving the store
  as it was. The response of each of the ten routes that call \<^verbatim>\<open>auditLog\<close> (the three
  warehouse routes, the three inventory routes, the two table routes, the image upload
  and the role assignment) is the same whether the append throws or not. A
  \<^verbatim>\<open>POST /api/inventory\<close> that succeeds still answers 201 with the created item, which is
  stored, when the append throws (no audit entry is written then).
\<close>

theorem audit_failure_keeps_response:
  "(auditInsertFails e \<longrightarrow> auditLog e k srv a act ep m d i = srv) \<and>
   fst (route_post_warehouses pw (e\<lparr>auditInsertFails := True\<rparr>) srv sess req) =
     fst (route_post_warehouses pw (e\<lparr>auditInsertFails := False\<rparr>) srv sess req) \<and>
   fst (route_patch_warehouse ppw (e\<lparr>auditInsertFails := True\<rparr>) srv sess req) =
     fst (route_patch_warehouse ppw (e\<lparr>auditInsertFails := False\<rparr>) srv sess req) \<and>
   fst (route_delete_warehouse (e\<lparr>auditInsertFails := True\<rparr>) srv sess req) =
     fst (route_delete_warehouse (e\<lparr>auditInsertFails := False\<rparr>) srv sess req) \<and>
   fst (route_post_inventory p (e\<lparr>auditInsertFails := True\<rparr>) srv sess req) =
     fst (route_post_inventory p (e\<lparr>auditInsertFails := False\<rparr>) srv sess req) \<and>
   fst (route_patch_inventory pp (e\<lparr>auditInsertFails := True\<rparr>) srv sess req) =
     fst (route_patch_inventory pp (e\<lparr>auditInsertFails := False\<rparr>) srv sess req) \<and>
   fst (route_delete_inventory (e\<lparr>auditInsertFails := True\<rparr>) srv sess req) =
     fst (route_delete_inventory (e\<lparr>auditInsertFails := False\<rparr>) srv sess req) \<and>
   fst (route_post_tables q (e\<lparr>auditInsertFails := True\<rparr>) srv sess req) =
     fst (route_post_tables q (e\<lparr>auditInsertFails := False\<rparr>) srv sess req) \<and>
   fst (route_delete_table (e\<lparr>auditInsertFails := True\<rparr>) srv sess req) =
     fst (route_delete_table (e\<lparr>auditInsertFails := False\<rparr>) srv sess req) \<and>
   fst (route_images_upload (e\<lparr>auditInsertFails := True\<rparr>) srv sess mu req) =
     fst (route_images_upload (e\<lparr>auditInsertFails := False\<rparr>) srv sess mu req) \<and>
   fst (route_patch_user_role (e\<lparr>auditInsertFails := True\<rparr>) srv sess req) =
     fst (route_patch_user_role (e\<lparr>auditInsertFails := False\<rparr>) srv sess req) \<and>
   (status (fst (route_post_inventory p (e\<lparr>auditInsertFails := False\<rparr>) srv sess req)) = 201 \<longrightarrow>
      (\<exists>item. fst (route_post_inventory p (e\<lparr>auditInsertFails := True\<rparr>) srv sess req) =
                \<lparr>status = 201, payload = Json_item item\<rparr> \<and>
              item \<in> set (inventoryItems
                (snd (route_post_inventory p (e\<lparr>auditInsertFails := True\<rparr>) srv sess req))) \<and>
              auditLogs (snd (route_post_inventory p (e\<lparr>auditInsertFails := True\<rparr>) srv sess req)) =
                auditLogs srv))"
proof -
  have c0: "auditInsertFails e \<longrightarrow> auditLog e k srv a act ep m d i = srv"
    by (simp add: auditLog_fails)
  have w1: "fst (route_post_warehouses pw (e\<lparr>auditInsertFails := True\<rparr>) srv sess req) =
     fst (route_post_warehouses pw (e\<lparr>auditInsertFails := False\<rparr>) srv sess req)"
    by (simp add: route_post_warehouses_def post_warehouses_response split: sum.splits)
  have w2: "fst (route_patch_warehouse ppw (e\<lparr>auditInsertFails := True\<rparr>) srv sess req) =
     fst (route_patch_warehouse ppw (e\<lparr>auditInsertFails := False\<rparr>) srv sess req)"
    by (simp add: route_patch_warehouse_def patch_warehouse_response split: sum.splits)
  have w3: "fst (route_delete_warehouse (e\<lparr>auditInsertFails := True\<rparr>) srv sess req) =
     fst (route_delete_warehouse (e\<lparr>auditInsertFails := False\<rparr>) srv sess req)"
    by (simp add: route_delete_warehouse_def delete_warehouse_response split: sum.splits)
  have i1: "fst (route_post_inventory p (e\<lparr>auditInsertFails := True\<rparr>) srv sess req) =
     fst (route_post_inventory p (e\<lparr>auditInsertFails := False\<rparr>) srv sess req)"
    by (simp add: route_post_inventory_def post_inventory_response split: sum.splits)
  have i2: "fst (route_patch_inventory pp (e\<lparr>auditInsertFails := True\<rparr>) srv sess req) =
     fst (route_patch_inventory pp (e\<lparr>auditInsertFails := False\<rparr>) srv sess req)"
    by (simp add: route_patch_inventory_def patch_inventory_response split: sum.splits)
  have i3: "fst (route_delete_inventory (e\<lparr>auditInsertFails := True\<rparr>) srv sess req) =
     fst (route_delete_inventory (e\<lparr>auditInsertFails := False\<rparr>) srv sess req)"
    by (simp add: route_delete_inventory_def delete_inventory_response split: sum.splits)
  have t1: "fst (route_post_tables q (e\<lparr>auditInsertFails := True\<rparr>) srv sess req) =
     fst (route_post_tables q (e\<lparr>auditInsertFails := False\<rparr>) srv sess req)"
    by (simp add: route_post_tables_def post_tables_response split: sum.splits)
  have t2: "fst (route_delete_table (e\<lparr>auditInsertFails := True\<rparr>) srv sess req) =
     fst (route_delete_table (e\<lparr>auditInsertFails := False\<rparr>) srv sess req)"
    by (simp add: route_delete_table_def delete_table_response split: sum.splits)
  have u1: "fst (route_images_upload (e\<lparr>auditInsertFails := True\<rparr>) srv sess mu req) =
     fst (route_images_upload (e\<lparr>auditInsertFails := False\<rparr>) srv sess mu req)"
    by (simp add: route_images_upload_def images_upload_response split: sum.splits)
  have r1: "fst (route_patch_user_role (e\<lparr>auditInsertFails := True\<rparr>) srv sess req) =
     fst (route_patch_user_role (e\<lparr>auditInsertFails := False\<rparr>) srv sess req)"
    by (simp add: route_patch_user_role_def patch_user_role_response split: sum.splits)
  have ex: "status (fst (route_post_inventory p (e\<lparr>auditInsertFails := False\<rparr>) srv sess req)) = 201 \<longrightarrow>
      (\<exists>item. fst (route_post_inventory p (e\<lparr>auditInsertFails := True\<rparr>) srv sess req) =
                \<lparr>status = 201, payload = Json_item item\<rparr> \<and>
              item \<in> set (inventoryItems
                (snd (route_post_inventory p (e\<lparr>auditInsertFails := True\<rparr>) srv sess req))) \<and>
              auditLogs (snd (route_post_inventory p (e\<lparr>auditInsertFails := True\<rparr>) srv sess req)) =
                auditLogs srv)"
  proof
    assume "status (fst (route_post_inventory p (e\<lparr>auditInsertFails := False\<rparr>) srv sess req)) = 201"
    with i1
    have "status (fst (route_post_inventory p (e\<lparr>auditInsertFails := True\<rparr>) srv sess req)) = 201"
      by simp
    from route_post_inventory_created [OF this]
    show "\<exists>item. fst (route_post_inventory p (e\<lparr>auditInsertFails := True\<rparr>) srv sess req) =
                \<lparr>status = 201, payload = Json_item item\<rparr> \<and>
              item \<in> set (inventoryItems
                (snd (route_post_inventory p (e\<lparr>auditInsertFails := True\<rparr>) srv sess req))) \<and>
              auditLogs (snd (route_post_inventory p (e\<lparr>auditInsertFails := True\<rparr>) srv sess req)) =
                auditLogs srv"
      by simp
  qed
  from c0 w1 w2 w3 i1 i2 i3 t1 t2 u1 r1 ex show ?thesis by blast
qed

lemma example_item_parse_item_request:
  "example_item_parse (body item_request) =
     Inr \<lparr>ii_id = None, ii_warehouseId = ''11111111-1111-4111-8111-111111111111'',
          ii_name = ''Bolt'', ii_sku = ''B-1'', ii_category = None, ii_quantity = Some 7,
          ii_unit = None, ii_batchNumber = None, ii_expirationDate = None,
          ii_location = None, ii_description = None, ii_createdAt = None,
          ii_updatedAt = None\<rparr>"
  by (simp add: example_item_parse_def item_request_def get_field_def optional_string_def
      canonical_uuid_def lower_hex_def)

lemma post_inventory_example:
  "fst (post_inventory example_item_parse example_env example_server admin_user item_request) =
     \<lparr>status = 201, payload = Json_item created_item\<rparr>"
  by (simp add: post_inventory_def example_item_parse_item_request createInventoryItem_def
      createProductHistory_def Let_def created_item_def example_env_def example_server_def
      canonical_uuid_def lower_hex_def int32_def or_null_def falsy_def admin_user_def)

theorem audit_failure_keeps_response_witness:
  "auditInsertFails failing_audit_env \<and>
   status (fst (route_post_inventory example_item_parse example_env example_server
                  (session_of ''admin-1'') item_request)) = 201 \<and>
   fst (route_post_inventory example_item_parse failing_audit_env example_server
          (session_of ''admin-1'') item_request) =
     \<lparr>status = 201, payload = Json_item created_item\<rparr> \<and>
   auditLogs (snd (route_post_inventory example_item_parse failing_audit_env example_server
          (session_of ''admin-1'') item_request)) = auditLogs example_server"
proof -
  have e1: "example_env\<lparr>auditInsertFails := False\<rparr> = example_env"
    by (simp add: example_env_def)
  have e2: "example_env\<lparr>auditInsertFails := True\<rparr> = failing_audit_env"
    by (simp add: failing_audit_env_def)
  have f: "auditInsertFails failing_audit_env"
    by (simp add: failing_audit_env_def)
  have mw: "middleware PostInventory example_server (session_of ''admin-1'') = Inr admin_user"
    by (simp add: middleware_def requireRole_def auth_defs fixture_defs)
  have r: "route_post_inventory example_item_parse example_env example_server
            (session_of ''admin-1'') item_request =
          post_inventory example_item_parse example_env example_server admin_user item_request"
    by (simp add: route_post_inventory_def mw)
  have ok: "fst (route_post_inventory example_item_parse example_env example_server
                  (session_of ''admin-1'') item_request) =
            \<lparr>status = 201, payload = Json_item created_item\<rparr>"
    by (simp only: r post_inventory_example)
  note T = audit_failure_keeps_response
      [where e = example_env and p = example_item_parse and srv = example_server
         and sess = "session_of ''admin-1''" and req = item_request
         and pw = "\<lambda>b. Inl ZodError" and ppw = "\<lambda>b. Inl ZodError"
         and pp = "\<lambda>b. Inl ZodError" and q = example_table_parse and mu = "Inr None"
         and k = 0 and a = None and act = "[]" and ep = "[]"
         and m = "[]" and d = None and i = None, unfolded e1 e2]
  from T ok have "fst (route_post_inventory example_item_parse failing_audit_env example_server
          (session_of ''admin-1'') item_request) = \<lparr>status = 201, payload = Json_item created_item\<rparr>"
    by simp
  moreover from T ok have "auditLogs (snd (route_post_inventory example_item_parse
          failing_audit_env example_server (session_of ''admin-1'') item_request)) =
          auditLogs example_server"
    by auto
  ultimately show ?thesis using f ok by simp
qed

lemma getAuditLogs_sorted: "sorted (map timestamp (getAuditLogs srv limit))"
  by (simp add: getAuditLogs_def sorted_wrt_take take_map [symmetric])

text \<open>
  Claim C6. The retrieval of audit entries is to return the \<open>N\<close> most recent entries,
  newest first. With three entries stamped 1, 2 and 3 and a limit of 2,
  \<^verbatim>\<open>DatabaseStorage.getAuditLogs\<close> returns the entries stamped 1 and 2, the two oldest, in
  ascending order, and \<^verbatim>\<open>MemStorage.getAuditLogs\<close> returns those stamped 2 and 3, the two
  newest, oldest first; the claim asks for 3 and 2. The query of the dashboard over the
  same table does order by timestamp descending.
\<close>

theorem getAuditLogs_oldest_first:
  "map timestamp (auditLogs example_server) = [1, 2, 3] \<and>
   map timestamp (recentEntries_spec (auditLogs example_server) 2) = [3, 2] \<and>
   map timestamp (getAuditLogs example_server (Some 2)) = [1, 2] \<and>
   map timestamp (getAuditLogs_mem (auditLogs example_server) (Some 2)) = [2, 3] \<and>
   map timestamp (recentLogs example_server) = [3, 2, 1]"
  by (simp add: getAuditLogs_def getAuditLogs_mem_def slice_from_def recentLogs_def
      recentEntries_spec_def example_server_def log_at_def)

section \<open>The table routes\<close>







section \<open>The login callback\<close>

lemma getOIDCConfig_calls:
  "getOIDCConfig e srv = (r, srv1, cs) \<Longrightarrow> cs = [] \<or> (\<exists>b. cs = [Discovery b])"
  by (auto simp: getOIDCConfig_def split: option.splits)

lemma getOIDCConfig_users:
  "getOIDCConfig e srv = (r, srv1, cs) \<Longrightarrow> users srv1 = users srv"
  by (auto simp: getOIDCConfig_def split: option.splits)

lemma getOIDCConfig_cached:
  "getOIDCConfig e srv = (Inr c, srv1, cs) \<Longrightarrow> oidcConfig srv1 = Some c"
  by (auto simp: getOIDCConfig_def split: option.splits)

lemma callback_no_pending:
  assumes "falsy (codeVerifier sess) \<or> falsy (state sess)"
  shows "callback e srv sess url =
     (case getOIDCConfig e srv of
        (Inl err, srv1, cs) \<Rightarrow>
          \<lparr>cb_response = \<lparr>status = 500, payload = Send ''Authentication failed''\<rparr>,
           cb_server = srv1, cb_session = sess, cb_calls = cs\<rparr>
      | (Inr config, srv1, cs) \<Rightarrow>
          \<lparr>cb_response = \<lparr>status = 400, payload = Send ''Invalid session''\<rparr>,
           cb_server = srv1, cb_session = sess, cb_calls = cs\<rparr>)"
  using assms
  by (auto simp: callback_def falsy_def Let_def split: prod.splits sum.splits option.splits)

lemma callback_cached_no_pending:
  assumes "oidcConfig srv = Some c" and "codeVerifier sess = None"
  shows "callback e srv sess url =
           \<lparr>cb_response = \<lparr>status = 400, payload = Send ''Invalid session''\<rparr>,
            cb_server = srv, cb_session = sess, cb_calls = []\<rparr>"
  using assms by (simp add: callback_def getOIDCConfig_def Let_def split: option.splits)

text \<open>
  Claim C2. In a callback whose token exchange fails, or whose fetch of the user claims
  fails, the handler answers 500, the session is what it was (its \<^verbatim>\<open>userId\<close> is not set)
  and no user is created or updated. A callback whose \<^verbatim>\<open>state\<close> parameter differs from
  the state stored in the session is one of these: whenever the exchange is attempted
  with such a state, it fails.
\<close>

theorem callback_failure_leaves_session:
  "(TokenExchange False \<in> set (cb_calls (callback e srv sess url)) \<or>
    UserInfo False \<in> set (cb_calls (callback e srv sess url)) \<longrightarrow>
      cb_response (callback e srv sess url) =
        \<lparr>status = 500, payload = Send ''Authentication failed''\<rparr> \<and>
      cb_session (callback e srv sess url) = sess \<and>
      users (cb_server (callback e srv sess url)) = users srv) \<and>
   ((\<exists>b. TokenExchange b \<in> set (cb_calls (callback e srv sess url))) \<and>
    q_state url \<noteq> state sess \<longrightarrow>
      TokenExchange False \<in> set (cb_calls (callback e srv sess url)))"
proof -
  obtain r srv1 cs where g: "getOIDCConfig e srv = (r, srv1, cs)"
    by (cases "getOIDCConfig e srv") auto
  from getOIDCConfig_calls [OF g] getOIDCConfig_users [OF g]
  show ?thesis
    by (auto simp: callback_def g Let_def authorizationCodeGrant_def
        split: prod.splits sum.splits option.splits if_splits)
qed

theorem callback_failure_leaves_session_witness:
  "q_state forged_query \<noteq> state pending \<and>
   TokenExchange False \<in> set (cb_calls (callback example_env example_server pending forged_query)) \<and>
   status (cb_response (callback example_env example_server pending forged_query)) = 500 \<and>
   cb_session (callback example_env example_server pending forged_query) = pending \<and>
   users (cb_server (callback example_env example_server pending forged_query)) =
     users example_server \<and>
   UserInfo False \<in> set (cb_calls (callback userinfo_down example_server pending good_query)) \<and>
   status (cb_response (callback userinfo_down example_server pending good_query)) = 500 \<and>
   cb_session (callback userinfo_down example_server pending good_query) = pending"
proof -
  have m: "q_state forged_query \<noteq> state pending"
    by (simp add: forged_query_def pending_def)
  have t: "cb_calls (callback example_env example_server pending forged_query) =
      [Discovery True, TokenExchange False]"
    by (simp add: callback_def getOIDCConfig_def authorizationCodeGrant_def example_env_def
        example_server_def pending_def forged_query_def)
  have t': "cb_calls (callback userinfo_down example_server pending good_query) =
      [Discovery True, TokenExchange True, UserInfo False]"
    by (simp add: callback_def getOIDCConfig_def authorizationCodeGrant_def fetchUserInfo_def
        userinfo_down_def example_env_def example_server_def pending_def good_query_def)
  from callback_failure_leaves_session [of example_env example_server pending forged_query]
       callback_failure_leaves_session [of userinfo_down example_server pending good_query]
       m t t'
  show ?thesis by simp
qed

text \<open>
  Claim C3. In a callback whose token exchange and fetch of the user claims succeed, the
  handler answers with the redirect, sets the session's \<^verbatim>\<open>userId\<close> to the id of the
  upserted user, and deletes \<^verbatim>\<open>codeVerifier\<close> and \<^verbatim>\<open>state\<close> from the session. Any further
  callback on that session and store, whatever its query and whatever the provider then
  answers, finds no pending login: it answers 400 without calling the provider and
  changes nothing. Since the handler passes the type of the token as the subject that
  \<^verbatim>\<open>fetchUserInfo\<close> is to expect, the fetch succeeds only for a subject equal to that type.
\<close>

theorem callback_success_single_use:
  assumes "getOIDCConfig e srv = (Inr config, srv1, cs)"
    and "codeVerifier sess = Some cv" and "cv \<noteq> []"
    and "state sess = Some st" and "st \<noteq> []"
    and "authorizationCodeGrant e config url cv st = Inr tks"
    and "fetchUserInfo e config (access_token tks) (token_type tks) = Inr info"
    and "upsertUser srv1 \<lparr>up_id = sub info, up_email = or_null (ui_email info),
           up_firstName = or_null (given_name info), up_lastName = or_null (family_name info),
           up_profileImageUrl = or_null (picture info)\<rparr> (now e) = (u, srv2)"
  shows "cb_response (callback e srv sess url) = \<lparr>status = 302, payload = Redirect ''/''\<rparr> \<and>
         cb_server (callback e srv sess url) = srv2 \<and>
         cb_session (callback e srv sess url) =
           sess\<lparr>userId := Some (uid u), codeVerifier := None, state := None\<rparr> \<and>
         users srv2 (sub info) = Some u \<and>
         sub info = token_type tks \<and>
         (\<forall>e' url'.
            callback e' (cb_server (callback e srv sess url))
                        (cb_session (callback e srv sess url)) url' =
              \<lparr>cb_response = \<lparr>status = 400, payload = Send ''Invalid session''\<rparr>,
               cb_server = cb_server (callback e srv sess url),
               cb_session = cb_session (callback e srv sess url),
               cb_calls = []\<rparr>)"
proof -
  have r: "callback e srv sess url =
      \<lparr>cb_response = \<lparr>status = 302, payload = Redirect ''/''\<rparr>,
       cb_server = srv2,
       cb_session = sess\<lparr>userId := Some (uid u), codeVerifier := None, state := None\<rparr>,
       cb_calls = cs @ [TokenExchange True, UserInfo True]\<rparr>"
    using assms by (simp add: callback_def Let_def)
  have "oidcConfig srv1 = Some config"
    using assms(1) by (rule getOIDCConfig_cached)
  moreover have "srv2 = snd (upsertUser srv1 \<lparr>up_id = sub info, up_email = or_null (ui_email info),
           up_firstName = or_null (given_name info), up_lastName = or_null (family_name info),
           up_profileImageUrl = or_null (picture info)\<rparr> (now e))"
    using assms(8) by simp
  ultimately have c: "oidcConfig srv2 = Some config"
    by (simp add: upsertUser_oidcConfig)
  have s: "users srv2 (sub info) = Some u"
    using assms(8) by (auto simp: upsertUser_def Let_def split: option.splits)
  have t: "sub info = token_type tks"
    using assms(7) by (simp add: fetchUserInfo_def split: option.splits if_splits)
  have again: "\<And>e' url'.
      callback e' srv2 (sess\<lparr>userId := Some (uid u), codeVerifier := None, state := None\<rparr>) url' =
      \<lparr>cb_response = \<lparr>status = 400, payload = Send ''Invalid session''\<rparr>, cb_server = srv2,
       cb_session = sess\<lparr>userId := Some (uid u), codeVerifier := None, state := None\<rparr>,
       cb_calls = []\<rparr>"
    by (rule callback_cached_no_pending [OF c]) simp
  show ?thesis
    using s t by (simp add: r again)
qed

theorem callback_success_single_use_witness:
  "status (cb_response (callback example_env example_server pending good_query)) = 302 \<and>
   userId (cb_session (callback example_env example_server pending good_query)) = Some ''bearer'' \<and>
   codeVerifier (cb_session (callback example_env example_server pending good_query)) = None \<and>
   state (cb_session (callback example_env example_server pending good_query)) = None \<and>
   status (cb_response
     (callback example_env
        (cb_server (callback example_env example_server pending good_query))
        (cb_session (callback example_env example_server pending good_query)) good_query)) = 400"
proof -
  let ?srv1 = "example_server\<lparr>oidcConfig := Some ''https://replit.com''\<rparr>"
  let ?tks = "\<lparr>access_token = ''at-1'', token_type = ''bearer''\<rparr>"
  let ?info = "\<lparr>sub = ''bearer'', ui_email = Some ''new@example.org'', given_name = Some ''Nia'',
                 family_name = None, picture = Some []\<rparr>"
  let ?p = "\<lparr>up_id = sub ?info, up_email = or_null (ui_email ?info),
           up_firstName = or_null (given_name ?info), up_lastName = or_null (family_name ?info),
           up_profileImageUrl = or_null (picture ?info)\<rparr>"
  have h1: "getOIDCConfig example_env example_server =
      (Inr ''https://replit.com'', ?srv1, [Discovery True])"
    by (simp add: getOIDCConfig_def example_env_def example_server_def)
  have h2: "codeVerifier pending = Some ''verifier-1''" "''verifier-1'' \<noteq> []"
    "state pending = Some ''state-1''" "''state-1'' \<noteq> []"
    by (simp_all add: pending_def)
  have h3: "authorizationCodeGrant example_env ''https://replit.com'' good_query
      ''verifier-1'' ''state-1'' = Inr ?tks"
    by (simp add: authorizationCodeGrant_def example_env_def good_query_def)
  have h4: "fetchUserInfo example_env ''https://replit.com'' (access_token ?tks) (token_type ?tks) =
      Inr ?info"
    by (simp add: fetchUserInfo_def example_env_def)
  have h5: "upsertUser ?srv1 ?p (now example_env) =
      (fst (upsertUser ?srv1 ?p (now example_env)), snd (upsertUser ?srv1 ?p (now example_env)))"
    by simp
  have i: "uid (fst (upsertUser ?srv1 ?p (now example_env))) = ''bearer''"
    by (simp add: upsertUser_def example_server_def Let_def)
  let ?r = "callback example_env example_server pending good_query"
  note T = callback_success_single_use [OF h1 h2 h3 h4 h5]
  from T have "cb_response ?r = \<lparr>status = 302, payload = Redirect ''/''\<rparr>"
    by blast
  then have c1: "status (cb_response ?r) = 302"
    by simp
  from T have "cb_session ?r = pending\<lparr>userId :=
      Some (uid (fst (upsertUser ?srv1 ?p (now example_env)))), codeVerifier := None, state := None\<rparr>"
    by blast
  then have c2: "userId (cb_session ?r) = Some ''bearer''" "codeVerifier (cb_session ?r) = None"
    "state (cb_session ?r) = None"
    by (simp_all add: i [simplified])
  from T have "callback example_env (cb_server ?r) (cb_session ?r) good_query =
      \<lparr>cb_response = \<lparr>status = 400, payload = Send ''Invalid session''\<rparr>,
       cb_server = cb_server ?r, cb_session = cb_session ?r, cb_calls = []\<rparr>"
    by blast
  then have c3: "status (cb_response (callback example_env (cb_server ?r) (cb_session ?r)
      good_query)) = 400"
    by simp
  from c1 c2 c3 show ?thesis by blast
qed

text \<open>
  Claim C8, as stated: a callback on a session without a pending login is answered 400.
  It is not when the handler cannot obtain the provider's configuration: on a server
  that has none cached, with the discovery failing, the handler answers 500, because
  \<^verbatim>\<open>getOIDCConfig\<close> is awaited before the session is looked at.
\<close>

theorem callback_without_pending_login_counterexample:
  "codeVerifier anonymous = None \<and> state anonymous = None \<and>
   status (cb_response (callback idp_down example_server anonymous good_query)) = 500"
  by (simp add: callback_def getOIDCConfig_def idp_down_def example_env_def example_server_def
      anonymous_def)

text \<open>
  Claim C8, amended. A callback on a session whose \<^verbatim>\<open>codeVerifier\<close> or \<^verbatim>\<open>state\<close> is absent
  (or empty) is answered 400 when the provider's configuration is cached or its discovery
  succeeds, and 500 when neither; in both cases no token exchange and no fetch of the
  claims is attempted, and the session and the users are left as they were.
\<close>

theorem callback_without_pending_login:
  assumes "falsy (codeVerifier sess) \<or> falsy (state sess)"
  shows "status (cb_response (callback e srv sess url)) =
           (if oidcConfig srv = None \<and> discovery e = None then 500 else 400) \<and>
         (\<forall>b. TokenExchange b \<notin> set (cb_calls (callback e srv sess url))) \<and>
         (\<forall>b. UserInfo b \<notin> set (cb_calls (callback e srv sess url))) \<and>
         cb_session (callback e srv sess url) = sess \<and>
         users (cb_server (callback e srv sess url)) = users srv"
  unfolding callback_no_pending [OF assms]
  by (auto simp: getOIDCConfig_def split: option.splits)

theorem callback_without_pending_login_witness:
  "falsy (codeVerifier anonymous) \<and>
   status (cb_response (callback example_env example_server anonymous good_query)) = 400 \<and>
   cb_session (callback example_env example_server anonymous good_query) = anonymous \<and>
   status (cb_response (callback idp_down example_server anonymous good_query)) = 500"
proof -
  have f: "falsy (codeVerifier anonymous)" by (simp add: falsy_def anonymous_def)
  then have g: "falsy (codeVerifier anonymous) \<or> falsy (state anonymous)" by simp
  have c: "oidcConfig example_server = None" "discovery example_env \<noteq> None"
    "discovery idp_down = None"
    by (simp_all add: example_server_def example_env_def idp_down_def)
  from callback_without_pending_login [OF g, of example_env example_server good_query]
       callback_without_pending_login [OF g, of idp_down example_server good_query] f c
  show ?thesis by simp
qed

end
